theory Spec2Isabelle
  imports Main "HOL-Library.Char_ord" "HOL-Library.List_Lexorder"
begin

section \<open>The persistence layer of Tabula (database.ts)\<close>

text \<open>
  The TypeScript module keeps four IndexedDB object stores (\<open>workspaces\<close>, \<open>tabGroups\<close>,
  \<open>tabs\<close>, \<open>deletedItems\<close>) and exports asynchronous functions over them. Each exported
  function is embedded as a function from the database state (and, where the source reads
  \<open>Date.now()\<close> or \<open>new Date()\<close>, the current time) to the value its promise settles with:
  \<open>Inr v\<close> for \<open>resolve(v)\<close>, \<open>Inl e\<close> for \<open>reject(e)\<close>, paired with the database state
  afterwards where the function writes. Opening the database (\<open>getDatabase\<close>) is taken to
  succeed, and a request fails only where the engine's rules make it fail (an occupied key,
  a unique index, an invalid key, an inactive transaction) or, in the expiry sweep, where the
  caller of the model says so.
\<close>

subsection \<open>Values and keys of the storage engine\<close>

text \<open>
  Instants are \<open>Date\<close> values, compared by the source through their millisecond count.
\<close>

type_synonym date = int

text \<open>
  The engine accepts numbers, dates, strings and arrays of keys as keys, and nothing else
  (Indexed Database API, "convert a value to a key"): a boolean or \<open>undefined\<close> is not a
  key. A record whose key path of an index yields no key is left out of that index, and a
  query given such a value raises \<open>DataError\<close>.
\<close>

datatype js_value =
    JSUndefined
  | JSBoolean bool
  | JSNumber int
  | JSString string
  | JSDate date
  | JSArray "js_value list"

datatype idb_key =
    KeyNumber int
  | KeyDate date
  | KeyString string
  | KeyArray "idb_key list"

fun convert_value_to_key :: "js_value \<Rightarrow> idb_key option" where
  "convert_value_to_key (JSNumber n) = Some (KeyNumber n)"
| "convert_value_to_key (JSDate d) = Some (KeyDate d)"
| "convert_value_to_key (JSString s) = Some (KeyString s)"
| "convert_value_to_key (JSArray vs) = map_option KeyArray (those (map convert_value_to_key vs))"
| "convert_value_to_key JSUndefined = None"
| "convert_value_to_key (JSBoolean b) = None"

text \<open>The exceptions of the engine that the module can meet, by their \<open>name\<close>.\<close>

datatype dom_error =
    ConstraintError
  | DataError
  | TransactionInactiveError
  | AbortError
  | UnknownError

text \<open>
  What a promise of the module is rejected with: \<open>new Error(msg)\<close> with a message the
  module builds alone, \<open>new Error(prefix + cause.message)\<close> around an exception of the
  engine, or the engine's exception itself (\<open>reject(error)\<close>, \<open>reject(request.error)\<close>).
\<close>

datatype error =
    Error string
  | ErrorFrom string dom_error
  | DOMException dom_error

definition IDBKeyRange_only :: "js_value \<Rightarrow> dom_error + idb_key" where
  "IDBKeyRange_only v =
     (case convert_value_to_key v of None \<Rightarrow> Inl DataError | Some k \<Rightarrow> Inr k)"

subsection \<open>Object stores\<close>

text \<open>
  An object store with key path \<open>id\<close> is the list of its records in ascending order of
  their keys, which is the order \<open>getAll\<close> returns them in. \<open>key\<close> reads the primary key
  of a record; \<open>ukey\<close> reads its key in the store's unique index (\<open>None\<close> when the store
  has no unique index).
\<close>

definition store_get :: "('a \<Rightarrow> string) \<Rightarrow> string \<Rightarrow> 'a list \<Rightarrow> 'a option" where
  "store_get key k xs = find (\<lambda>x. key x = k) xs"

definition store_getAll :: "'a list \<Rightarrow> 'a list" where
  "store_getAll xs = xs"

text \<open>
  \<open>add\<close> refuses an occupied primary key and a key of the unique index that another record
  holds, both with \<open>ConstraintError\<close>; the store is then as before.
\<close>

definition store_add ::
  "('a \<Rightarrow> string) \<Rightarrow> ('a \<Rightarrow> idb_key option) \<Rightarrow> 'a \<Rightarrow> 'a list \<Rightarrow> dom_error + 'a list" where
  "store_add key ukey r xs =
     (if list_ex (\<lambda>x. key x = key r) xs then Inl ConstraintError
      else if ukey r \<noteq> None \<and> list_ex (\<lambda>x. ukey x = ukey r) xs then Inl ConstraintError
      else Inr (insort_key key r xs))"

text \<open>
  \<open>put\<close> overwrites the record under the same primary key, or inserts; it too refuses a
  key of the unique index held by a record under another primary key.
\<close>

definition store_put ::
  "('a \<Rightarrow> string) \<Rightarrow> ('a \<Rightarrow> idb_key option) \<Rightarrow> 'a \<Rightarrow> 'a list \<Rightarrow> dom_error + 'a list" where
  "store_put key ukey r xs =
     (if ukey r \<noteq> None \<and> list_ex (\<lambda>x. key x \<noteq> key r \<and> ukey x = ukey r) xs
      then Inl ConstraintError
      else if list_ex (\<lambda>x. key x = key r) xs
      then Inr (map (\<lambda>x. if key x = key r then r else x) xs)
      else Inr (insort_key key r xs))"

text \<open>\<open>delete\<close> succeeds whether or not the key is present.\<close>

definition store_delete :: "('a \<Rightarrow> string) \<Rightarrow> string \<Rightarrow> 'a list \<Rightarrow> 'a list" where
  "store_delete key k xs = filter (\<lambda>x. key x \<noteq> k) xs"

text \<open>
  \<open>index.getAll(k)\<close>: the records whose key path yields the key \<open>k\<close>, in primary-key order.
\<close>

definition index_getAll :: "('a \<Rightarrow> js_value) \<Rightarrow> idb_key \<Rightarrow> 'a list \<Rightarrow> 'a list" where
  "index_getAll keypath k xs = filter (\<lambda>x. convert_value_to_key (keypath x) = Some k) xs"

text \<open>
  The invariant the engine keeps for a store: keys ascending and distinct, and no two
  records with the same key in the unique index.
\<close>

definition wf_store :: "('a \<Rightarrow> string) \<Rightarrow> ('a \<Rightarrow> idb_key option) \<Rightarrow> 'a list \<Rightarrow> bool" where
  "wf_store key ukey xs =
     (sorted (map key xs) \<and> distinct (map key xs) \<and>
      distinct (map ukey (filter (\<lambda>x. ukey x \<noteq> None) xs)))"

subsection \<open>Transactions\<close>

text \<open>
  A transaction takes requests only while it is active: when it has just been created and
  while a handler of one of its requests runs. When control goes back to the event loop
  with none of its requests pending, the engine commits it, and a later \<open>add\<close>, \<open>put\<close> or
  \<open>delete\<close> through one of its stores raises \<open>TransactionInactiveError\<close>.
\<close>

datatype txn_state = TxActive | TxInactive | TxFinished

definition return_to_event_loop :: "nat \<Rightarrow> txn_state \<Rightarrow> txn_state" where
  "return_to_event_loop pending tx =
     (if tx = TxFinished \<or> pending = 0 then TxFinished else TxInactive)"

definition txn_request :: "txn_state \<Rightarrow> dom_error + unit" where
  "txn_request tx = (if tx = TxActive then Inr () else Inl TransactionInactiveError)"

subsection \<open>Entities\<close>

text \<open>
  The four interfaces of the module. A field \<open>f\<close> of \<open>Workspace\<close>, \<open>TabGroup\<close>, \<open>Tab\<close> and
  \<open>DeletedItem\<close> is written \<open>ws_f\<close>, \<open>tg_f\<close>, \<open>tab_f\<close> and \<open>di_f\<close>. An optional field
  (\<open>archivedAt?\<close>, \<open>parentId?\<close>) is an option, \<open>None\<close> standing both for a missing property
  and for one holding \<open>undefined\<close>, which TypeScript reads alike. \<open>position\<close> is taken to be
  an integer.
\<close>

record Workspace =
  ws_id :: string
  ws_name :: string
  ws_isDefault :: bool
  ws_createdAt :: date
  ws_lastAccessedAt :: date

record TabGroup =
  tg_id :: string
  tg_workspaceId :: string
  tg_name :: string
  tg_icon :: string
  tg_position :: int
  tg_isArchived :: bool
  tg_archivedAt :: "date option"
  tg_createdAt :: date

record Tab =
  tab_id :: string
  tab_groupId :: string
  tab_url :: string
  tab_title :: string
  tab_favicon :: string
  tab_position :: int
  tab_isArchived :: bool
  tab_archivedAt :: "date option"
  tab_createdAt :: date

datatype item_type = TypeTab | TypeTabGroup | TypeWorkspace

datatype item_data = WorkspaceData Workspace | TabGroupData TabGroup | TabData Tab

record DeletedItem =
  di_id :: string
  di_type :: item_type
  di_data :: item_data
  di_deletedAt :: date
  di_originalLocation :: string
  di_parentId :: "string option"

text \<open>
  The property reads the restore path makes on the untagged union \<open>data\<close>: \<open>data.id\<close>,
  \<open>data.workspaceId\<close> and \<open>data.groupId\<close>, the last two \<open>undefined\<close> on a snapshot of
  another kind.
\<close>

fun data_id :: "item_data \<Rightarrow> string" where
  "data_id (WorkspaceData w) = ws_id w"
| "data_id (TabGroupData g) = tg_id g"
| "data_id (TabData t) = tab_id t"

fun data_workspaceId :: "item_data \<Rightarrow> string option" where
  "data_workspaceId (TabGroupData g) = Some (tg_workspaceId g)"
| "data_workspaceId (WorkspaceData w) = None"
| "data_workspaceId (TabData t) = None"

fun data_groupId :: "item_data \<Rightarrow> string option" where
  "data_groupId (TabData t) = Some (tab_groupId t)"
| "data_groupId (WorkspaceData w) = None"
| "data_groupId (TabGroupData g) = None"

fun type_name :: "item_type \<Rightarrow> string" where
  "type_name TypeTab = ''tab''"
| "type_name TypeTabGroup = ''tabGroup''"
| "type_name TypeWorkspace = ''workspace''"

subsection \<open>The schema (getDatabase, onupgradeneeded)\<close>

text \<open>
  Every store has key path \<open>id\<close>. The only unique indexes are the composite ones,
  \<open>workspaceId_position\<close> on \<open>tabGroups\<close> and \<open>groupId_position\<close> on \<open>tabs\<close>. Of the
  others, the model needs the key paths of \<open>workspaceId\<close> on \<open>tabGroups\<close> and of
  \<open>isArchived\<close> on \<open>tabs\<close>.
\<close>

record database =
  workspaces :: "Workspace list"
  tabGroups :: "TabGroup list"
  tabs :: "Tab list"
  deletedItems :: "DeletedItem list"

definition no_unique_index :: "'a \<Rightarrow> idb_key option" where
  "no_unique_index r = None"

definition workspaceId_position :: "TabGroup \<Rightarrow> idb_key option" where
  "workspaceId_position g =
     convert_value_to_key (JSArray [JSString (tg_workspaceId g), JSNumber (tg_position g)])"

definition groupId_position :: "Tab \<Rightarrow> idb_key option" where
  "groupId_position t =
     convert_value_to_key (JSArray [JSString (tab_groupId t), JSNumber (tab_position t)])"

definition workspaceId_keypath :: "TabGroup \<Rightarrow> js_value" where
  "workspaceId_keypath g = JSString (tg_workspaceId g)"

definition groupId_keypath :: "Tab \<Rightarrow> js_value" where
  "groupId_keypath t = JSString (tab_groupId t)"

definition isArchived_keypath :: "Tab \<Rightarrow> js_value" where
  "isArchived_keypath t = JSBoolean (tab_isArchived t)"

definition wf_database :: "database \<Rightarrow> bool" where
  "wf_database db =
     (wf_store ws_id no_unique_index (workspaces db) \<and>
      wf_store tg_id workspaceId_position (tabGroups db) \<and>
      wf_store tab_id groupId_position (tabs db) \<and>
      wf_store di_id no_unique_index (deletedItems db))"

text \<open>A string between single quotes, as the messages of the module show an id.\<close>

definition quoted :: "string \<Rightarrow> string" where
  "quoted s = [CHR 0x27] @ s @ [CHR 0x27]"

subsection \<open>The trash: retention, restore, listing, purge\<close>

definition day :: int where
  "day = 24 * 60 * 60 * 1000"

definition retentionPeriodMs :: int where
  "retentionPeriodMs = 14 * 24 * 60 * 60 * 1000"

text \<open>
  Times are in milliseconds; \<open>now\<close> is the value of \<open>Date.now()\<close> when the function is
  called.
\<close>

definition isWithinRetentionPeriod :: "date \<Rightarrow> date \<Rightarrow> bool" where
  "isWithinRetentionPeriod now deletedAt =
     (let cutoffDate = now - retentionPeriodMs in deletedAt > cutoffDate)"

text \<open>
  \<open>store.get(undefined)\<close> raises \<open>DataError\<close>, which rejects the promise of the helper.
\<close>

definition validateWorkspaceExists :: "database \<Rightarrow> string option \<Rightarrow> dom_error + bool" where
  "validateWorkspaceExists db workspaceId =
     (case workspaceId of
        None \<Rightarrow> Inl DataError
      | Some k \<Rightarrow> Inr (store_get ws_id k (workspaces db) \<noteq> None))"

definition validateTabGroupExists :: "database \<Rightarrow> string option \<Rightarrow> dom_error + bool" where
  "validateTabGroupExists db groupId =
     (case groupId of
        None \<Rightarrow> Inl DataError
      | Some k \<Rightarrow> Inr (store_get tg_id k (tabGroups db) \<noteq> None))"

definition checkIdConflict :: "database \<Rightarrow> string \<Rightarrow> item_type \<Rightarrow> bool" where
  "checkIdConflict db i ty =
     (if ty = TypeWorkspace then store_get ws_id i (workspaces db) \<noteq> None
      else if ty = TypeTabGroup then store_get tg_id i (tabGroups db) \<noteq> None
      else store_get tab_id i (tabs db) \<noteq> None)"

text \<open>
  The three rejections of the restore path. The module rejects with plain \<open>Error\<close> objects
  told apart by their messages; the names are those the specification gives them.
\<close>

definition RetentionExpiredError :: error where
  "RetentionExpiredError =
     Error ''Item has exceeded 14-day retention period and cannot be restored''"

definition IdConflictError :: "item_type \<Rightarrow> string \<Rightarrow> error" where
  "IdConflictError ty i =
     Error (''Cannot restore '' @ type_name ty @ '': ID '' @ i @ '' already exists'')"

definition OrphanedParentError :: "item_type \<Rightarrow> string \<Rightarrow> error" where
  "OrphanedParentError ty parent =
     Error (''Cannot restore '' @
            (if ty = TypeTabGroup then ''tab group: parent workspace ''
             else ''tab: parent tab group '') @
            parent @ '' does not exist'')"

text \<open>What a template literal shows for a value that may be \<open>undefined\<close>.\<close>

definition template_string :: "string option \<Rightarrow> string" where
  "template_string v = (case v of None \<Rightarrow> ''undefined'' | Some s \<Rightarrow> s)"

text \<open>Step 3 of \<open>restoreDeletedItem\<close>: the first \<open>switch\<close> on the type of the tombstone.\<close>

definition validate_parent :: "database \<Rightarrow> DeletedItem \<Rightarrow> error + unit" where
  "validate_parent db deletedItem =
     (case di_type deletedItem of
        TypeWorkspace \<Rightarrow> Inr ()
      | TypeTabGroup \<Rightarrow>
          (case validateWorkspaceExists db (data_workspaceId (di_data deletedItem)) of
             Inl e \<Rightarrow> Inl (DOMException e)
           | Inr workspaceExists \<Rightarrow>
               if \<not> workspaceExists
               then Inl (OrphanedParentError TypeTabGroup
                          (template_string (data_workspaceId (di_data deletedItem))))
               else Inr ())
      | TypeTab \<Rightarrow>
          (case validateTabGroupExists db (data_groupId (di_data deletedItem)) of
             Inl e \<Rightarrow> Inl (DOMException e)
           | Inr groupExists \<Rightarrow>
               if \<not> groupExists
               then Inl (OrphanedParentError TypeTab
                          (template_string (data_groupId (di_data deletedItem))))
               else Inr ()))"

text \<open>
  Steps 4 and 5: the second \<open>switch\<close> adds \<open>data\<close> to the store its type names, then the
  tombstone is deleted and the promise resolved, all through the transaction opened at the
  start. The \<open>add\<close> is a request whose outcome no handler awaits: were it to fail, the
  transaction would abort, undoing the \<open>delete\<close>, after \<open>resolve(true)\<close>. A snapshot of
  another kind than the type names cannot enter the typed stores of this model, which are
  then left as they are.
\<close>

definition restore_add :: "item_type \<Rightarrow> item_data \<Rightarrow> database \<Rightarrow> dom_error + database" where
  "restore_add ty d db =
     (case ty of
        TypeWorkspace \<Rightarrow>
          (case d of
             WorkspaceData w \<Rightarrow>
               (case store_add ws_id no_unique_index w (workspaces db) of
                  Inl e \<Rightarrow> Inl e | Inr s \<Rightarrow> Inr (db\<lparr>workspaces := s\<rparr>))
           | TabGroupData g \<Rightarrow> Inr db
           | TabData t \<Rightarrow> Inr db)
      | TypeTabGroup \<Rightarrow>
          (case d of
             TabGroupData g \<Rightarrow>
               (case store_add tg_id workspaceId_position g (tabGroups db) of
                  Inl e \<Rightarrow> Inl e | Inr s \<Rightarrow> Inr (db\<lparr>tabGroups := s\<rparr>))
           | WorkspaceData w \<Rightarrow> Inr db
           | TabData t \<Rightarrow> Inr db)
      | TypeTab \<Rightarrow>
          (case d of
             TabData t \<Rightarrow>
               (case store_add tab_id groupId_position t (tabs db) of
                  Inl e \<Rightarrow> Inl e | Inr s \<Rightarrow> Inr (db\<lparr>tabs := s\<rparr>))
           | WorkspaceData w \<Rightarrow> Inr db
           | TabGroupData g \<Rightarrow> Inr db))"

definition restore_write ::
  "txn_state \<Rightarrow> string \<Rightarrow> DeletedItem \<Rightarrow> database \<Rightarrow> (error + bool) \<times> database" where
  "restore_write tx deletedItemId deletedItem db =
     (case txn_request tx of
        Inl e \<Rightarrow> (Inl (DOMException e), db)
      | Inr u \<Rightarrow>
          (case restore_add (di_type deletedItem) (di_data deletedItem) db of
             Inl e \<Rightarrow> (Inr True, db)
           | Inr db' \<Rightarrow>
               (Inr True,
                db'\<lparr>deletedItems := store_delete di_id deletedItemId (deletedItems db')\<rparr>)))"

text \<open>
  \<open>restoreDeletedItem\<close>. The handler of the \<open>get\<close> request is an \<open>async\<close> function. Past the
  retention check it suspends on \<open>await checkIdConflict(...)\<close>, which opens the database
  anew and reads in a transaction of its own: control is back in the event loop while the
  transaction of \<open>restoreDeletedItem\<close> has no request pending.
\<close>

definition restoreDeletedItem :: "date \<Rightarrow> string \<Rightarrow> database \<Rightarrow> (error + bool) \<times> database" where
  "restoreDeletedItem now deletedItemId db =
     (case store_get di_id deletedItemId (deletedItems db) of
        None \<Rightarrow> (Inl (Error ''Deleted item not found''), db)
      | Some deletedItem \<Rightarrow>
          if \<not> isWithinRetentionPeriod now (di_deletedAt deletedItem)
          then (Inl RetentionExpiredError, db)
          else
            let tx = return_to_event_loop 0 TxActive;
                hasConflict = checkIdConflict db (di_id deletedItem) (di_type deletedItem)
            in if hasConflict
               then (Inl (IdConflictError (di_type deletedItem) (di_id deletedItem)), db)
               else
                 (case validate_parent db deletedItem of
                    Inl e \<Rightarrow> (Inl e, db)
                  | Inr u \<Rightarrow> restore_write tx deletedItemId deletedItem db))"

text \<open>
  The two listings. \<open>getAll\<close> always yields an array, and an array is truthy even when
  empty, so \<open>request.result || []\<close> is \<open>request.result\<close>.
\<close>

definition or_empty :: "'a list \<Rightarrow> 'a list" where
  "or_empty result = result"

definition getDeletedItems :: "database \<Rightarrow> error + DeletedItem list" where
  "getDeletedItems db = Inr (store_getAll (deletedItems db))"

definition getAllDeletedItems :: "database \<Rightarrow> error + DeletedItem list" where
  "getAllDeletedItems db = Inr (or_empty (store_getAll (deletedItems db)))"

definition getNonExpiredDeletedItems :: "date \<Rightarrow> database \<Rightarrow> error + DeletedItem list" where
  "getNonExpiredDeletedItems now db =
     (let allItems = or_empty (store_getAll (deletedItems db));
          nonExpiredItems = filter (\<lambda>item. isWithinRetentionPeriod now (di_deletedAt item)) allItems
      in Inr nonExpiredItems)"

definition getExpiredDeletedItems :: "date \<Rightarrow> database \<Rightarrow> error + DeletedItem list" where
  "getExpiredDeletedItems now db =
     (let allItems = or_empty (store_getAll (deletedItems db));
          expiredItems = filter (\<lambda>item. \<not> isWithinRetentionPeriod now (di_deletedAt item)) allItems
      in Inr expiredItems)"

definition permanentlyDeleteItem :: "string \<Rightarrow> database \<Rightarrow> (error + bool) \<times> database" where
  "permanentlyDeleteItem itemId db =
     (Inr True, db\<lparr>deletedItems := store_delete di_id itemId (deletedItems db)\<rparr>)"

text \<open>
  The expiry sweep issues one \<open>delete\<close> request per expired item, all in one transaction.
  \<open>fails\<close> tells which of these requests the engine fails (a fault of the storage; a
  missing key is no failure). The \<open>onerror\<close> handler logs and counts the request as
  completed; it does not call \<open>preventDefault\<close>, so the error event, by its default action,
  aborts the transaction: every request still pending then ends in \<open>onerror\<close> with
  \<open>AbortError\<close>, and what the transaction wrote is undone. \<open>sweep_requests\<close> runs the
  requests in order and returns \<open>deletedCount\<close>, whether the transaction aborted, and the
  store as written inside the transaction.
\<close>

fun sweep_requests ::
  "(string \<Rightarrow> bool) \<Rightarrow> DeletedItem list \<Rightarrow> bool \<Rightarrow> nat \<Rightarrow> DeletedItem list
     \<Rightarrow> nat \<times> bool \<times> DeletedItem list" where
  "sweep_requests fails [] aborted deletedCount store = (deletedCount, aborted, store)"
| "sweep_requests fails (item # rest) aborted deletedCount store =
     (if aborted then sweep_requests fails rest True deletedCount store
      else if fails (di_id item) then sweep_requests fails rest True deletedCount store
      else sweep_requests fails rest False (deletedCount + 1)
             (store_delete di_id (di_id item) store))"

definition cleanupExpiredDeletedItems ::
  "date \<Rightarrow> (string \<Rightarrow> bool) \<Rightarrow> database \<Rightarrow> (error + nat) \<times> database" where
  "cleanupExpiredDeletedItems now fails db =
     (let cutoffDate = now - (14 * 24 * 60 * 60 * 1000);
          allDeletedItems = store_getAll (deletedItems db);
          expiredItems = filter (\<lambda>item. di_deletedAt item < cutoffDate) allDeletedItems
      in if length expiredItems = 0 then (Inr 0, db)
         else
           (case sweep_requests fails expiredItems False 0 (deletedItems db) of
              (deletedCount, aborted, store) \<Rightarrow>
                (Inr deletedCount, if aborted then db else db\<lparr>deletedItems := store\<rparr>)))"

subsection \<open>Aggregate queries\<close>

definition getTabCount :: "string \<Rightarrow> database \<Rightarrow> error + nat" where
  "getTabCount groupId db =
     (let activeTabs = filter (\<lambda>tab. \<not> tab_isArchived tab)
                         (index_getAll groupId_keypath (KeyString groupId) (tabs db))
      in Inr (length activeTabs))"

text \<open>
  \<open>getWorkSpaceCount\<close>. Step 2 asks the \<open>isArchived\<close> index of \<open>tabs\<close> for
  \<open>IDBKeyRange.only(false)\<close> inside the \<open>try\<close> of the handler of step 1; an exception
  there is caught and rejects with \<open>Failed to process group data: ...\<close>.
\<close>

definition getWorkSpaceCount :: "string \<Rightarrow> database \<Rightarrow> error + nat" where
  "getWorkSpaceCount workspaceId db =
     (let activeGroups = filter (\<lambda>group. \<not> tg_isArchived group)
                           (index_getAll workspaceId_keypath (KeyString workspaceId) (tabGroups db))
      in if length activeGroups = 0 then Inr 0
         else
           let activeGroupIds = set (map tg_id activeGroups) in
           (case IDBKeyRange_only (JSBoolean False) of
              Inl e \<Rightarrow> Inl (ErrorFrom ''Failed to process group data: '' e)
            | Inr keyRange \<Rightarrow>
                let activeTabs =
                      filter (\<lambda>tab. tab_groupId tab \<in> activeGroupIds \<and> \<not> tab_isArchived tab)
                        (index_getAll isArchived_keypath keyRange (tabs db))
                in Inr (length activeTabs)))"

definition getAllTabs :: "database \<Rightarrow> error + Tab list" where
  "getAllTabs db = Inr (or_empty (store_getAll (tabs db)))"

subsection \<open>Workspace operations\<close>

text \<open>
  \<open>Partial<T>\<close>: each field is named (\<open>Some\<close>) or not (\<open>None\<close>); an optional field can
  be named with \<open>undefined\<close> (\<open>Some None\<close>). The spread \<open>{...existing, ...updates}\<close> takes a
  named field from \<open>updates\<close> and any other from \<open>existing\<close>.
\<close>

definition spread :: "'a \<Rightarrow> 'a option \<Rightarrow> 'a" where
  "spread existing named = (case named of None \<Rightarrow> existing | Some v \<Rightarrow> v)"

record Partial_Workspace =
  pws_id :: "string option"
  pws_name :: "string option"
  pws_isDefault :: "bool option"
  pws_createdAt :: "date option"
  pws_lastAccessedAt :: "date option"

definition merge_Workspace :: "Workspace \<Rightarrow> Partial_Workspace \<Rightarrow> Workspace" where
  "merge_Workspace existing updates =
     \<lparr> ws_id = spread (ws_id existing) (pws_id updates),
       ws_name = spread (ws_name existing) (pws_name updates),
       ws_isDefault = spread (ws_isDefault existing) (pws_isDefault updates),
       ws_createdAt = spread (ws_createdAt existing) (pws_createdAt updates),
       ws_lastAccessedAt = spread (ws_lastAccessedAt existing) (pws_lastAccessedAt updates) \<rparr>"

definition createWorkspace :: "Workspace \<Rightarrow> database \<Rightarrow> (error + unit) \<times> database" where
  "createWorkspace workspace db =
     (case store_add ws_id no_unique_index workspace (workspaces db) of
        Inl e \<Rightarrow>
          (if e = ConstraintError
           then Inl (Error (''Workspace with ID '' @ quoted (ws_id workspace) @ '' already exists''))
           else Inl (ErrorFrom ''Failed to create workspace: '' e), db)
      | Inr s \<Rightarrow> (Inr (), db\<lparr>workspaces := s\<rparr>))"

text \<open>\<open>request.result || null\<close>: the record, or \<open>null\<close> (\<open>None\<close>) when the key is absent.\<close>

definition getWorkspace :: "string \<Rightarrow> database \<Rightarrow> error + Workspace option" where
  "getWorkspace i db = Inr (store_get ws_id i (workspaces db))"

definition getAllWorkspaces :: "database \<Rightarrow> error + Workspace list" where
  "getAllWorkspaces db = Inr (or_empty (store_getAll (workspaces db)))"

definition updateWorkspace ::
  "string \<Rightarrow> Partial_Workspace \<Rightarrow> database \<Rightarrow> (error + unit) \<times> database" where
  "updateWorkspace i updates db =
     (case store_get ws_id i (workspaces db) of
        None \<Rightarrow> (Inl (Error (''Workspace with ID '' @ quoted i @ '' not found'')), db)
      | Some existingWorkspace \<Rightarrow>
          let updatedWorkspace = merge_Workspace existingWorkspace updates in
          (case store_put ws_id no_unique_index updatedWorkspace (workspaces db) of
             Inl e \<Rightarrow> (Inl (ErrorFrom ''Failed to update workspace: '' e), db)
           | Inr s \<Rightarrow> (Inr (), db\<lparr>workspaces := s\<rparr>)))"

definition deleteWorkspace :: "string \<Rightarrow> database \<Rightarrow> (error + unit) \<times> database" where
  "deleteWorkspace i db = (Inr (), db\<lparr>workspaces := store_delete ws_id i (workspaces db)\<rparr>)"

subsection \<open>Tab group operations\<close>

record Partial_TabGroup =
  ptg_id :: "string option"
  ptg_workspaceId :: "string option"
  ptg_name :: "string option"
  ptg_icon :: "string option"
  ptg_position :: "int option"
  ptg_isArchived :: "bool option"
  ptg_archivedAt :: "date option option"
  ptg_createdAt :: "date option"

definition merge_TabGroup :: "TabGroup \<Rightarrow> Partial_TabGroup \<Rightarrow> TabGroup" where
  "merge_TabGroup existing updates =
     \<lparr> tg_id = spread (tg_id existing) (ptg_id updates),
       tg_workspaceId = spread (tg_workspaceId existing) (ptg_workspaceId updates),
       tg_name = spread (tg_name existing) (ptg_name updates),
       tg_icon = spread (tg_icon existing) (ptg_icon updates),
       tg_position = spread (tg_position existing) (ptg_position updates),
       tg_isArchived = spread (tg_isArchived existing) (ptg_isArchived updates),
       tg_archivedAt = spread (tg_archivedAt existing) (ptg_archivedAt updates),
       tg_createdAt = spread (tg_createdAt existing) (ptg_createdAt updates) \<rparr>"

definition createTabGroup :: "TabGroup \<Rightarrow> database \<Rightarrow> (error + unit) \<times> database" where
  "createTabGroup tabGroup db =
     (case store_add tg_id workspaceId_position tabGroup (tabGroups db) of
        Inl e \<Rightarrow>
          (if e = ConstraintError
           then Inl (Error (''Tab group with ID '' @ quoted (tg_id tabGroup) @ '' already exists''))
           else Inl (ErrorFrom ''Failed to create tab group: '' e), db)
      | Inr s \<Rightarrow> (Inr (), db\<lparr>tabGroups := s\<rparr>))"

definition getTabGroup :: "string \<Rightarrow> database \<Rightarrow> error + TabGroup option" where
  "getTabGroup i db = Inr (store_get tg_id i (tabGroups db))"

definition getAllTabGroups :: "database \<Rightarrow> error + TabGroup list" where
  "getAllTabGroups db = Inr (or_empty (store_getAll (tabGroups db)))"

definition updateTabGroup ::
  "string \<Rightarrow> Partial_TabGroup \<Rightarrow> database \<Rightarrow> (error + unit) \<times> database" where
  "updateTabGroup i updates db =
     (case store_get tg_id i (tabGroups db) of
        None \<Rightarrow> (Inl (Error (''Tab group with ID '' @ quoted i @ '' not found'')), db)
      | Some existingTabGroup \<Rightarrow>
          let updatedTabGroup = merge_TabGroup existingTabGroup updates in
          (case store_put tg_id workspaceId_position updatedTabGroup (tabGroups db) of
             Inl e \<Rightarrow> (Inl (ErrorFrom ''Failed to update tab group: '' e), db)
           | Inr s \<Rightarrow> (Inr (), db\<lparr>tabGroups := s\<rparr>)))"

definition deleteTabGroup :: "string \<Rightarrow> database \<Rightarrow> (error + unit) \<times> database" where
  "deleteTabGroup i db = (Inr (), db\<lparr>tabGroups := store_delete tg_id i (tabGroups db)\<rparr>)"

text \<open>\<open>now\<close> is the value of \<open>new Date()\<close>.\<close>

definition archiveTabGroup :: "date \<Rightarrow> string \<Rightarrow> database \<Rightarrow> (error + unit) \<times> database" where
  "archiveTabGroup now i db =
     (case store_get tg_id i (tabGroups db) of
        None \<Rightarrow> (Inl (Error (''Tab group with ID '' @ quoted i @ '' not found'')), db)
      | Some existingTabGroup \<Rightarrow>
          let archivedTabGroup =
                existingTabGroup\<lparr>tg_isArchived := True, tg_archivedAt := Some now\<rparr> in
          (case store_put tg_id workspaceId_position archivedTabGroup (tabGroups db) of
             Inl e \<Rightarrow> (Inl (ErrorFrom ''Failed to archive tab group: '' e), db)
           | Inr s \<Rightarrow> (Inr (), db\<lparr>tabGroups := s\<rparr>)))"

definition unarchiveTabGroup :: "string \<Rightarrow> database \<Rightarrow> (error + unit) \<times> database" where
  "unarchiveTabGroup i db =
     (case store_get tg_id i (tabGroups db) of
        None \<Rightarrow> (Inl (Error (''Tab group with ID '' @ quoted i @ '' not found'')), db)
      | Some existingTabGroup \<Rightarrow>
          let unarchivedTabGroup =
                existingTabGroup\<lparr>tg_isArchived := False, tg_archivedAt := None\<rparr> in
          (case store_put tg_id workspaceId_position unarchivedTabGroup (tabGroups db) of
             Inl e \<Rightarrow> (Inl (ErrorFrom ''Failed to unarchive tab group: '' e), db)
           | Inr s \<Rightarrow> (Inr (), db\<lparr>tabGroups := s\<rparr>)))"

subsection \<open>Tab operations\<close>

record Partial_Tab =
  ptab_id :: "string option"
  ptab_groupId :: "string option"
  ptab_url :: "string option"
  ptab_title :: "string option"
  ptab_favicon :: "string option"
  ptab_position :: "int option"
  ptab_isArchived :: "bool option"
  ptab_archivedAt :: "date option option"
  ptab_createdAt :: "date option"

definition merge_Tab :: "Tab \<Rightarrow> Partial_Tab \<Rightarrow> Tab" where
  "merge_Tab existing updates =
     \<lparr> tab_id = spread (tab_id existing) (ptab_id updates),
       tab_groupId = spread (tab_groupId existing) (ptab_groupId updates),
       tab_url = spread (tab_url existing) (ptab_url updates),
       tab_title = spread (tab_title existing) (ptab_title updates),
       tab_favicon = spread (tab_favicon existing) (ptab_favicon updates),
       tab_position = spread (tab_position existing) (ptab_position updates),
       tab_isArchived = spread (tab_isArchived existing) (ptab_isArchived updates),
       tab_archivedAt = spread (tab_archivedAt existing) (ptab_archivedAt updates),
       tab_createdAt = spread (tab_createdAt existing) (ptab_createdAt updates) \<rparr>"

definition createTab :: "Tab \<Rightarrow> database \<Rightarrow> (error + unit) \<times> database" where
  "createTab tab db =
     (case store_add tab_id groupId_position tab (tabs db) of
        Inl e \<Rightarrow>
          (if e = ConstraintError
           then Inl (Error (''Tab with ID '' @ quoted (tab_id tab) @ '' already exists''))
           else Inl (ErrorFrom ''Failed to create tab: '' e), db)
      | Inr s \<Rightarrow> (Inr (), db\<lparr>tabs := s\<rparr>))"

definition getTab :: "string \<Rightarrow> database \<Rightarrow> error + Tab option" where
  "getTab i db = Inr (store_get tab_id i (tabs db))"

definition updateTab :: "string \<Rightarrow> Partial_Tab \<Rightarrow> database \<Rightarrow> (error + unit) \<times> database" where
  "updateTab i updates db =
     (case store_get tab_id i (tabs db) of
        None \<Rightarrow> (Inl (Error (''Tab with ID '' @ quoted i @ '' not found'')), db)
      | Some existingTab \<Rightarrow>
          let updatedTab = merge_Tab existingTab updates in
          (case store_put tab_id groupId_position updatedTab (tabs db) of
             Inl e \<Rightarrow> (Inl (ErrorFrom ''Failed to update tab: '' e), db)
           | Inr s \<Rightarrow> (Inr (), db\<lparr>tabs := s\<rparr>)))"

definition deleteTab :: "string \<Rightarrow> database \<Rightarrow> (error + unit) \<times> database" where
  "deleteTab i db = (Inr (), db\<lparr>tabs := store_delete tab_id i (tabs db)\<rparr>)"

definition archiveTab :: "date \<Rightarrow> string \<Rightarrow> database \<Rightarrow> (error + unit) \<times> database" where
  "archiveTab now i db =
     (case store_get tab_id i (tabs db) of
        None \<Rightarrow> (Inl (Error (''Tab with ID '' @ quoted i @ '' not found'')), db)
      | Some existingTab \<Rightarrow>
          let archivedTab = existingTab\<lparr>tab_isArchived := True, tab_archivedAt := Some now\<rparr> in
          (case store_put tab_id groupId_position archivedTab (tabs db) of
             Inl e \<Rightarrow> (Inl (ErrorFrom ''Failed to archive tab: '' e), db)
           | Inr s \<Rightarrow> (Inr (), db\<lparr>tabs := s\<rparr>)))"

definition unarchiveTab :: "string \<Rightarrow> database \<Rightarrow> (error + unit) \<times> database" where
  "unarchiveTab i db =
     (case store_get tab_id i (tabs db) of
        None \<Rightarrow> (Inl (Error (''Tab with ID '' @ quoted i @ '' not found'')), db)
      | Some existingTab \<Rightarrow>
          let unarchivedTab = existingTab\<lparr>tab_isArchived := False, tab_archivedAt := None\<rparr> in
          (case store_put tab_id groupId_position unarchivedTab (tabs db) of
             Inl e \<Rightarrow> (Inl (ErrorFrom ''Failed to unarchive tab: '' e), db)
           | Inr s \<Rightarrow> (Inr (), db\<lparr>tabs := s\<rparr>)))"

subsection \<open>Deleted item operations\<close>

record Partial_DeletedItem =
  pdi_id :: "string option"
  pdi_type :: "item_type option"
  pdi_data :: "item_data option"
  pdi_deletedAt :: "date option"
  pdi_originalLocation :: "string option"
  pdi_parentId :: "string option option"

definition merge_DeletedItem :: "DeletedItem \<Rightarrow> Partial_DeletedItem \<Rightarrow> DeletedItem" where
  "merge_DeletedItem existing updates =
     \<lparr> di_id = spread (di_id existing) (pdi_id updates),
       di_type = spread (di_type existing) (pdi_type updates),
       di_data = spread (di_data existing) (pdi_data updates),
       di_deletedAt = spread (di_deletedAt existing) (pdi_deletedAt updates),
       di_originalLocation = spread (di_originalLocation existing) (pdi_originalLocation updates),
       di_parentId = spread (di_parentId existing) (pdi_parentId updates) \<rparr>"

definition createDeletedItem :: "DeletedItem \<Rightarrow> database \<Rightarrow> (error + unit) \<times> database" where
  "createDeletedItem deletedItem db =
     (case store_add di_id no_unique_index deletedItem (deletedItems db) of
        Inl e \<Rightarrow>
          (if e = ConstraintError
           then Inl (Error (''Deleted item with ID '' @ quoted (di_id deletedItem) @
                            '' already exists''))
           else Inl (ErrorFrom ''Failed to create deleted item: '' e), db)
      | Inr s \<Rightarrow> (Inr (), db\<lparr>deletedItems := s\<rparr>))"

definition getDeletedItem :: "string \<Rightarrow> database \<Rightarrow> error + DeletedItem option" where
  "getDeletedItem i db = Inr (store_get di_id i (deletedItems db))"

definition updateDeletedItem ::
  "string \<Rightarrow> Partial_DeletedItem \<Rightarrow> database \<Rightarrow> (error + unit) \<times> database" where
  "updateDeletedItem i updates db =
     (case store_get di_id i (deletedItems db) of
        None \<Rightarrow> (Inl (Error (''Deleted item with ID '' @ quoted i @ '' not found'')), db)
      | Some existingDeletedItem \<Rightarrow>
          let updatedDeletedItem = merge_DeletedItem existingDeletedItem updates in
          (case store_put di_id no_unique_index updatedDeletedItem (deletedItems db) of
             Inl e \<Rightarrow> (Inl (ErrorFrom ''Failed to update deleted item: '' e), db)
           | Inr s \<Rightarrow> (Inr (), db\<lparr>deletedItems := s\<rparr>)))"

definition deleteDeletedItem :: "string \<Rightarrow> database \<Rightarrow> (error + unit) \<times> database" where
  "deleteDeletedItem i db =
     (Inr (), db\<lparr>deletedItems := store_delete di_id i (deletedItems db)\<rparr>)"

subsection \<open>A scenario\<close>

text \<open>
  The data of the specification's examples: workspace \<open>w1\<close> with an active group \<open>g1\<close> and
  an archived group \<open>g2\<close>, each holding three tabs that are not archived, and a trash with
  one tombstone for each outcome of the restore checks.
\<close>

definition scenario_w1 :: Workspace where
  "scenario_w1 =
     \<lparr> ws_id = ''w1'', ws_name = ''Home'', ws_isDefault = True,
       ws_createdAt = 0, ws_lastAccessedAt = 0 \<rparr>"

definition scenario_group :: "string \<Rightarrow> int \<Rightarrow> bool \<Rightarrow> TabGroup" where
  "scenario_group i p archived =
     \<lparr> tg_id = i, tg_workspaceId = ''w1'', tg_name = ''Group'', tg_icon = ''folder'',
       tg_position = p, tg_isArchived = archived,
       tg_archivedAt = (if archived then Some day else None), tg_createdAt = 0 \<rparr>"

definition scenario_tab :: "string \<Rightarrow> string \<Rightarrow> int \<Rightarrow> Tab" where
  "scenario_tab i g p =
     \<lparr> tab_id = i, tab_groupId = g, tab_url = ''https://example.com'', tab_title = ''Example'',
       tab_favicon = ''https://example.com/favicon.ico'', tab_position = p,
       tab_isArchived = False, tab_archivedAt = None, tab_createdAt = 0 \<rparr>"

definition tombstone :: "item_type \<Rightarrow> item_data \<Rightarrow> date \<Rightarrow> string option \<Rightarrow> DeletedItem" where
  "tombstone ty d deletedAt parent =
     \<lparr> di_id = data_id d, di_type = ty, di_data = d, di_deletedAt = deletedAt,
       di_originalLocation = ''Home'', di_parentId = parent \<rparr>"

definition scenario_trash :: "DeletedItem list" where
  "scenario_trash =
     [ tombstone TypeTabGroup (TabGroupData (scenario_group ''g1'' 0 False)) (14 * day) (Some ''w1''),
       tombstone TypeTabGroup
         (TabGroupData ((scenario_group ''g9'' 7 False)\<lparr>tg_workspaceId := ''w9''\<rparr>))
         (14 * day) (Some ''w9''),
       tombstone TypeTab (TabData (scenario_tab ''t1'' ''g1'' 0)) 0 (Some ''g1''),
       tombstone TypeTab (TabData (scenario_tab ''t9'' ''g8'' 0)) (14 * day) (Some ''g8''),
       tombstone TypeWorkspace (WorkspaceData (scenario_w1\<lparr>ws_id := ''w2''\<rparr>)) (2 * day) None ]"

definition scenario_db :: database where
  "scenario_db =
     \<lparr> workspaces = [scenario_w1],
       tabGroups = [scenario_group ''g1'' 0 False, scenario_group ''g2'' 1 True],
       tabs = [scenario_tab ''t1'' ''g1'' 0, scenario_tab ''t2'' ''g1'' 1,
               scenario_tab ''t3'' ''g1'' 2, scenario_tab ''t4'' ''g2'' 0,
               scenario_tab ''t5'' ''g2'' 1, scenario_tab ''t6'' ''g2'' 2],
       deletedItems = scenario_trash \<rparr>"

definition empty_db :: database where
  "empty_db = \<lparr> workspaces = [], tabGroups = [], tabs = [], deletedItems = [] \<rparr>"

text \<open>The update that names no field, for each of the four \<open>Partial\<close> types.\<close>

definition no_updates_Workspace :: Partial_Workspace where
  "no_updates_Workspace =
     \<lparr> pws_id = None, pws_name = None, pws_isDefault = None, pws_createdAt = None,
       pws_lastAccessedAt = None \<rparr>"

definition no_updates_TabGroup :: Partial_TabGroup where
  "no_updates_TabGroup =
     \<lparr> ptg_id = None, ptg_workspaceId = None, ptg_name = None, ptg_icon = None,
       ptg_position = None, ptg_isArchived = None, ptg_archivedAt = None,
       ptg_createdAt = None \<rparr>"

definition no_updates_Tab :: Partial_Tab where
  "no_updates_Tab =
     \<lparr> ptab_id = None, ptab_groupId = None, ptab_url = None, ptab_title = None,
       ptab_favicon = None, ptab_position = None, ptab_isArchived = None,
       ptab_archivedAt = None, ptab_createdAt = None \<rparr>"

definition no_updates_DeletedItem :: Partial_DeletedItem where
  "no_updates_DeletedItem =
     \<lparr> pdi_id = None, pdi_type = None, pdi_data = None, pdi_deletedAt = None,
       pdi_originalLocation = None, pdi_parentId = None \<rparr>"

section \<open>Properties\<close>

subsection \<open>Facts about object stores\<close>

lemmas scenario_defs = scenario_db_def scenario_trash_def tombstone_def scenario_tab_def
  scenario_group_def scenario_w1_def day_def empty_db_def

lemmas engine_defs = store_get_def store_add_def store_put_def store_delete_def store_getAll_def
  or_empty_def no_unique_index_def workspaceId_position_def groupId_position_def

lemma store_get_SomeD: "store_get key k xs = Some x \<Longrightarrow> x \<in> set xs \<and> key x = k"
  unfolding store_get_def by (induction xs) (auto split: if_splits)

lemma store_delete_absent: "store_get key k xs = None \<Longrightarrow> store_delete key k xs = xs"
  unfolding store_get_def store_delete_def by (induction xs) (auto split: if_splits)

lemma restore_write_finished:
  "restore_write TxFinished i d db = (Inl (DOMException TransactionInactiveError), db)"
  by (simp add: restore_write_def txn_request_def)

lemma restore_errors_distinct:
  "IdConflictError ty i \<noteq> RetentionExpiredError"
  "OrphanedParentError ty p \<noteq> RetentionExpiredError"
  "DOMException e \<noteq> RetentionExpiredError"
  by (simp_all add: IdConflictError_def RetentionExpiredError_def OrphanedParentError_def)

lemma restore_retention_iff:
  assumes "store_get di_id i (deletedItems db) = Some d"
  shows "fst (restoreDeletedItem now i db) = Inl RetentionExpiredError
         \<longleftrightarrow> \<not> isWithinRetentionPeriod now (di_deletedAt d)"
  using assms
  by (auto simp: restoreDeletedItem_def Let_def validate_parent_def restore_write_def
      restore_errors_distinct txn_request_def return_to_event_loop_def
      split: sum.splits item_type.splits if_splits)

lemma restore_expired:
  assumes "store_get di_id i (deletedItems db) = Some d"
    and "\<not> isWithinRetentionPeriod now (di_deletedAt d)"
  shows "restoreDeletedItem now i db = (Inl RetentionExpiredError, db)"
  using assms by (simp add: restoreDeletedItem_def)

lemma expired_query_mem:
  assumes "store_get di_id i (deletedItems db) = Some d"
  shows "(\<exists>items. getExpiredDeletedItems now db = Inr items \<and> d \<in> set items)
         \<longleftrightarrow> \<not> isWithinRetentionPeriod now (di_deletedAt d)"
  using store_get_SomeD[OF assms]
  by (auto simp: getExpiredDeletedItems_def Let_def or_empty_def store_getAll_def)

subsection \<open>Restore: the order of the checks\<close>

text \<open>
  Claim C1. For a tombstone that exists, \<open>restoreDeletedItem\<close> checks retention first, then
  the id conflict, then the parent, and rejects at the first check that fails, leaving the
  database as it was: past retention it rejects with the retention error whatever else
  holds; within retention, with the id present in the store of its type, it rejects with the
  id-conflict error; within retention and free of conflict, a tab group whose recorded
  workspace is absent, and a tab whose recorded group is absent, are rejected with the
  orphaned-parent error naming that parent; a workspace passes the parent check and goes on
  to the write.
\<close>

theorem restore_checks_in_order:
  assumes "store_get di_id i (deletedItems db) = Some d"
  shows "(\<not> isWithinRetentionPeriod now (di_deletedAt d) \<longrightarrow>
            restoreDeletedItem now i db = (Inl RetentionExpiredError, db)) \<and>
         (isWithinRetentionPeriod now (di_deletedAt d) \<and>
          checkIdConflict db (di_id d) (di_type d) \<longrightarrow>
            restoreDeletedItem now i db = (Inl (IdConflictError (di_type d) (di_id d)), db)) \<and>
         (isWithinRetentionPeriod now (di_deletedAt d) \<and>
          \<not> checkIdConflict db (di_id d) (di_type d) \<and>
          di_type d = TypeTabGroup \<and> data_workspaceId (di_data d) = Some w \<and>
          store_get ws_id w (workspaces db) = None \<longrightarrow>
            restoreDeletedItem now i db = (Inl (OrphanedParentError TypeTabGroup w), db)) \<and>
         (isWithinRetentionPeriod now (di_deletedAt d) \<and>
          \<not> checkIdConflict db (di_id d) (di_type d) \<and>
          di_type d = TypeTab \<and> data_groupId (di_data d) = Some g \<and>
          store_get tg_id g (tabGroups db) = None \<longrightarrow>
            restoreDeletedItem now i db = (Inl (OrphanedParentError TypeTab g), db)) \<and>
         (isWithinRetentionPeriod now (di_deletedAt d) \<and>
          \<not> checkIdConflict db (di_id d) (di_type d) \<and> di_type d = TypeWorkspace \<longrightarrow>
            validate_parent db d = Inr () \<and>
            restoreDeletedItem now i db = restore_write TxFinished i d db)"
  using assms
  by (auto simp: restoreDeletedItem_def Let_def validate_parent_def
      validateWorkspaceExists_def validateTabGroupExists_def template_string_def
      return_to_event_loop_def)

theorem restore_checks_in_order_witness:
  "restoreDeletedItem (15 * day) ''t1'' scenario_db = (Inl RetentionExpiredError, scenario_db) \<and>
   checkIdConflict scenario_db ''t1'' TypeTab \<and>
   restoreDeletedItem (15 * day) ''g1'' scenario_db
     = (Inl (IdConflictError TypeTabGroup ''g1''), scenario_db) \<and>
   restoreDeletedItem (15 * day) ''g9'' scenario_db
     = (Inl (OrphanedParentError TypeTabGroup ''w9''), scenario_db) \<and>
   restoreDeletedItem (15 * day) ''t9'' scenario_db
     = (Inl (OrphanedParentError TypeTab ''g8''), scenario_db) \<and>
   restoreDeletedItem (15 * day) ''w2'' scenario_db
     = restore_write TxFinished ''w2''
         (tombstone TypeWorkspace (WorkspaceData (scenario_w1\<lparr>ws_id := ''w2''\<rparr>)) (2 * day) None)
         scenario_db"
proof -
  let ?t1 = "tombstone TypeTab (TabData (scenario_tab ''t1'' ''g1'' 0)) 0 (Some ''g1'')"
  let ?g1 = "tombstone TypeTabGroup (TabGroupData (scenario_group ''g1'' 0 False)) (14 * day)
               (Some ''w1'')"
  let ?g9 = "tombstone TypeTabGroup
               (TabGroupData ((scenario_group ''g9'' 7 False)\<lparr>tg_workspaceId := ''w9''\<rparr>))
               (14 * day) (Some ''w9'')"
  let ?t9 = "tombstone TypeTab (TabData (scenario_tab ''t9'' ''g8'' 0)) (14 * day) (Some ''g8'')"
  let ?w2 = "tombstone TypeWorkspace (WorkspaceData (scenario_w1\<lparr>ws_id := ''w2''\<rparr>)) (2 * day)
               None"
  have get: "store_get di_id ''t1'' (deletedItems scenario_db) = Some ?t1"
    "store_get di_id ''g1'' (deletedItems scenario_db) = Some ?g1"
    "store_get di_id ''g9'' (deletedItems scenario_db) = Some ?g9"
    "store_get di_id ''t9'' (deletedItems scenario_db) = Some ?t9"
    "store_get di_id ''w2'' (deletedItems scenario_db) = Some ?w2"
    by (simp_all add: scenario_defs store_get_def)
  have ret: "\<not> isWithinRetentionPeriod (15 * day) (di_deletedAt ?t1)"
    "isWithinRetentionPeriod (15 * day) (di_deletedAt ?g1)"
    "isWithinRetentionPeriod (15 * day) (di_deletedAt ?g9)"
    "isWithinRetentionPeriod (15 * day) (di_deletedAt ?t9)"
    "isWithinRetentionPeriod (15 * day) (di_deletedAt ?w2)"
    by (simp_all add: tombstone_def day_def isWithinRetentionPeriod_def retentionPeriodMs_def)
  have conflict: "checkIdConflict scenario_db ''t1'' TypeTab"
    "checkIdConflict scenario_db (di_id ?g1) (di_type ?g1)"
    "\<not> checkIdConflict scenario_db (di_id ?g9) (di_type ?g9)"
    "\<not> checkIdConflict scenario_db (di_id ?t9) (di_type ?t9)"
    "\<not> checkIdConflict scenario_db (di_id ?w2) (di_type ?w2)"
    by (simp_all add: scenario_defs checkIdConflict_def store_get_def)
  have parent: "di_type ?g9 = TypeTabGroup" "data_workspaceId (di_data ?g9) = Some ''w9''"
    "store_get ws_id ''w9'' (workspaces scenario_db) = None"
    "di_type ?t9 = TypeTab" "data_groupId (di_data ?t9) = Some ''g8''"
    "store_get tg_id ''g8'' (tabGroups scenario_db) = None"
    "di_type ?w2 = TypeWorkspace" "di_type ?g1 = TypeTabGroup" "di_id ?g1 = ''g1''"
    by (simp_all add: scenario_defs store_get_def)
  have r1: "restoreDeletedItem (15 * day) ''t1'' scenario_db
              = (Inl RetentionExpiredError, scenario_db)"
    using restore_checks_in_order[OF get(1), of "15 * day"] ret(1) by blast
  have r2: "restoreDeletedItem (15 * day) ''g1'' scenario_db
              = (Inl (IdConflictError TypeTabGroup ''g1''), scenario_db)"
    using restore_checks_in_order[OF get(2), of "15 * day"] ret(2) conflict(2) parent(8,9)
    by metis
  have r3: "restoreDeletedItem (15 * day) ''g9'' scenario_db
              = (Inl (OrphanedParentError TypeTabGroup ''w9''), scenario_db)"
    using restore_checks_in_order[OF get(3), where now = "15 * day" and w = "''w9''"]
      ret(3) conflict(3) parent(1,2,3) by blast
  have r4: "restoreDeletedItem (15 * day) ''t9'' scenario_db
              = (Inl (OrphanedParentError TypeTab ''g8''), scenario_db)"
    using restore_checks_in_order[OF get(4), where now = "15 * day" and g = "''g8''"]
      ret(4) conflict(4) parent(4,5,6) by blast
  have r5: "restoreDeletedItem (15 * day) ''w2'' scenario_db
              = restore_write TxFinished ''w2'' ?w2 scenario_db"
    using restore_checks_in_order[OF get(5), of "15 * day"] ret(5) conflict(5) parent(7)
    by blast
  show ?thesis using r1 r2 r3 r4 r5 conflict(1) by simp
qed

subsection \<open>Retention and expiry agree\<close>

text \<open>
  Claim C4. For a tombstone in the trash: when \<open>deletedAt\<close> is more than 14 days before
  \<open>now\<close>, \<open>restoreDeletedItem\<close> rejects with the retention error and
  \<open>getExpiredDeletedItems\<close> lists it; when \<open>deletedAt\<close> is 13 days before \<open>now\<close>, it passes
  the retention check (the restore is not rejected for retention) and the expired-items
  query leaves it out; and at every instant the restore is rejected for retention exactly
  when the expired-items query lists the tombstone.
\<close>

theorem retention_boundary:
  assumes "store_get di_id i (deletedItems db) = Some d"
  shows "(di_deletedAt d < now - 14 * day \<longrightarrow>
            restoreDeletedItem now i db = (Inl RetentionExpiredError, db) \<and>
            (\<exists>items. getExpiredDeletedItems now db = Inr items \<and> d \<in> set items)) \<and>
         (di_deletedAt d = now - 13 * day \<longrightarrow>
            isWithinRetentionPeriod now (di_deletedAt d) \<and>
            fst (restoreDeletedItem now i db) \<noteq> Inl RetentionExpiredError \<and>
            (\<exists>items. getExpiredDeletedItems now db = Inr items \<and> d \<notin> set items)) \<and>
         ((fst (restoreDeletedItem now i db) = Inl RetentionExpiredError) =
          (\<exists>items. getExpiredDeletedItems now db = Inr items \<and> d \<in> set items))"
proof -
  have old: "\<not> isWithinRetentionPeriod now (di_deletedAt d)" if "di_deletedAt d < now - 14 * day"
    using that by (simp add: isWithinRetentionPeriod_def retentionPeriodMs_def day_def)
  have recent: "isWithinRetentionPeriod now (di_deletedAt d)" if "di_deletedAt d = now - 13 * day"
    using that by (simp add: isWithinRetentionPeriod_def retentionPeriodMs_def day_def)
  have listed: "\<exists>items. getExpiredDeletedItems now db = Inr items"
    by (simp add: getExpiredDeletedItems_def Let_def)
  show ?thesis
    using old recent listed restore_expired[OF assms] restore_retention_iff[OF assms, of now]
      expired_query_mem[OF assms, of now]
    by metis
qed

theorem retention_boundary_witness:
  "store_get di_id ''t1'' (deletedItems scenario_db)
     = Some (tombstone TypeTab (TabData (scenario_tab ''t1'' ''g1'' 0)) 0 (Some ''g1'')) \<and>
   (0::int) < 15 * day - 14 * day \<and>
   restoreDeletedItem (15 * day) ''t1'' scenario_db = (Inl RetentionExpiredError, scenario_db) \<and>
   (\<exists>items. getExpiredDeletedItems (15 * day) scenario_db = Inr items \<and>
      tombstone TypeTab (TabData (scenario_tab ''t1'' ''g1'' 0)) 0 (Some ''g1'') \<in> set items) \<and>
   store_get di_id ''w2'' (deletedItems scenario_db)
     = Some (tombstone TypeWorkspace (WorkspaceData (scenario_w1\<lparr>ws_id := ''w2''\<rparr>)) (2 * day) None) \<and>
   2 * day = 15 * day - 13 * day \<and>
   isWithinRetentionPeriod (15 * day) (2 * day) \<and>
   fst (restoreDeletedItem (15 * day) ''w2'' scenario_db) \<noteq> Inl RetentionExpiredError \<and>
   (\<exists>items. getExpiredDeletedItems (15 * day) scenario_db = Inr items \<and>
      tombstone TypeWorkspace (WorkspaceData (scenario_w1\<lparr>ws_id := ''w2''\<rparr>)) (2 * day) None
        \<notin> set items)"
proof -
  let ?old = "tombstone TypeTab (TabData (scenario_tab ''t1'' ''g1'' 0)) 0 (Some ''g1'')"
  let ?recent = "tombstone TypeWorkspace (WorkspaceData (scenario_w1\<lparr>ws_id := ''w2''\<rparr>)) (2 * day) None"
  have a: "store_get di_id ''t1'' (deletedItems scenario_db) = Some ?old"
    by (simp add: scenario_defs store_get_def)
  have a': "di_deletedAt ?old < 15 * day - 14 * day"
    by (simp add: tombstone_def day_def)
  have b: "store_get di_id ''w2'' (deletedItems scenario_db) = Some ?recent"
    by (simp add: scenario_defs store_get_def)
  have b': "di_deletedAt ?recent = 15 * day - 13 * day"
    by (simp add: tombstone_def day_def)
  have c: "di_deletedAt ?recent = 2 * day" "di_deletedAt ?old = 0"
    by (simp_all add: tombstone_def)
  show ?thesis
    using a a' b b' c retention_boundary[OF a, of "15 * day"] retention_boundary[OF b, of "15 * day"]
    by simp
qed


subsection \<open>Reading and deleting an absent id\<close>

text \<open>
  Claim C8, as amended. For an id that a store does not hold, the \<open>get\<close> function of the
  store resolves with \<open>null\<close> and its \<open>delete\<close> function resolves leaving the database as it
  was; neither rejects.
\<close>

theorem get_delete_absent_id:
  "(store_get ws_id i (workspaces db) = None \<longrightarrow>
      getWorkspace i db = Inr None \<and> deleteWorkspace i db = (Inr (), db)) \<and>
   (store_get tg_id i (tabGroups db) = None \<longrightarrow>
      getTabGroup i db = Inr None \<and> deleteTabGroup i db = (Inr (), db)) \<and>
   (store_get tab_id i (tabs db) = None \<longrightarrow>
      getTab i db = Inr None \<and> deleteTab i db = (Inr (), db)) \<and>
   (store_get di_id i (deletedItems db) = None \<longrightarrow>
      getDeletedItem i db = Inr None \<and> deleteDeletedItem i db = (Inr (), db))"
  by (simp add: getWorkspace_def deleteWorkspace_def getTabGroup_def deleteTabGroup_def
      getTab_def deleteTab_def getDeletedItem_def deleteDeletedItem_def store_delete_absent)

theorem get_delete_absent_id_witness:
  "store_get ws_id ''w9'' (workspaces scenario_db) = None \<and>
   getWorkspace ''w9'' scenario_db = Inr None \<and>
   deleteWorkspace ''w9'' scenario_db = (Inr (), scenario_db) \<and>
   store_get tg_id ''w9'' (tabGroups scenario_db) = None \<and>
   getTabGroup ''w9'' scenario_db = Inr None \<and>
   deleteTabGroup ''w9'' scenario_db = (Inr (), scenario_db) \<and>
   store_get tab_id ''w9'' (tabs scenario_db) = None \<and>
   getTab ''w9'' scenario_db = Inr None \<and>
   deleteTab ''w9'' scenario_db = (Inr (), scenario_db) \<and>
   store_get di_id ''w9'' (deletedItems scenario_db) = None \<and>
   getDeletedItem ''w9'' scenario_db = Inr None \<and>
   deleteDeletedItem ''w9'' scenario_db = (Inr (), scenario_db)"
proof -
  have a: "store_get ws_id ''w9'' (workspaces scenario_db) = None"
    by (simp add: scenario_defs store_get_def)
  have b: "store_get tg_id ''w9'' (tabGroups scenario_db) = None"
    by (simp add: scenario_defs store_get_def)
  have c: "store_get tab_id ''w9'' (tabs scenario_db) = None"
    by (simp add: scenario_defs store_get_def)
  have d: "store_get di_id ''w9'' (deletedItems scenario_db) = None"
    by (simp add: scenario_defs store_get_def)
  show ?thesis
    using a b c d get_delete_absent_id[of "''w9''" scenario_db] by simp
qed


text \<open>
  Claim C8 as stated fails: on the empty database, \<open>getWorkspace\<close> resolves with \<open>null\<close>
  and \<open>deleteWorkspace\<close> resolves, where the claim has both reject with a not-found error.
\<close>

theorem get_delete_not_found_counterexample:
  "store_get ws_id ''w9'' (workspaces empty_db) = None \<and>
   getWorkspace ''w9'' empty_db = Inr None \<and>
   deleteWorkspace ''w9'' empty_db = (Inr (), empty_db)"
  by (simp add: empty_db_def getWorkspace_def deleteWorkspace_def store_get_def store_delete_def)


subsection \<open>The two listings of the trash\<close>

text \<open>
  Claim C9. \<open>getDeletedItems\<close> and \<open>getAllDeletedItems\<close> resolve with the same sequence of
  tombstones, the content of the store in key order, in every state of the database.
\<close>

theorem getDeletedItems_getAllDeletedItems:
  "getDeletedItems db = getAllDeletedItems db \<and> getDeletedItems db = Inr (deletedItems db)"
  by (simp add: getDeletedItems_def getAllDeletedItems_def or_empty_def store_getAll_def)

subsection \<open>Archive and unarchive\<close>

lemma wf_store_key_inj:
  assumes "wf_store key ukey xs" "x \<in> set xs" "y \<in> set xs" "key x = key y"
  shows "x = y"
proof -
  from assms(1) have "distinct (map key xs)" by (simp add: wf_store_def)
  then have "inj_on key (set xs)" by (simp add: distinct_map)
  with assms(2-4) show ?thesis by (auto dest: inj_onD)
qed

lemma wf_store_ukey_inj:
  assumes "wf_store key ukey xs" "x \<in> set xs" "y \<in> set xs" "ukey x = ukey y" "ukey x \<noteq> None"
  shows "x = y"
proof -
  from assms(1) have "distinct (map ukey (filter (\<lambda>x. ukey x \<noteq> None) xs))"
    by (simp add: wf_store_def)
  then have "inj_on ukey (set (filter (\<lambda>x. ukey x \<noteq> None) xs))" by (simp add: distinct_map)
  moreover have "x \<in> set (filter (\<lambda>x. ukey x \<noteq> None) xs)" "y \<in> set (filter (\<lambda>x. ukey x \<noteq> None) xs)"
    using assms(2-5) by auto
  ultimately show ?thesis using assms(4) by (auto dest: inj_onD)
qed

lemma store_put_in_place:
  assumes wf: "wf_store key ukey xs" and get: "store_get key k xs = Some x"
    and k: "key r = k" and u: "ukey r = ukey x"
  shows "store_put key ukey r xs = Inr (map (\<lambda>y. if key y = k then r else y) xs)"
proof -
  from store_get_SomeD[OF get] have x: "x \<in> set xs" "key x = k" by auto
  have "\<not> (ukey r \<noteq> None \<and> list_ex (\<lambda>y. key y \<noteq> key r \<and> ukey y = ukey r) xs)"
  proof
    assume a: "ukey r \<noteq> None \<and> list_ex (\<lambda>y. key y \<noteq> key r \<and> ukey y = ukey r) xs"
    then obtain y where y: "y \<in> set xs" "key y \<noteq> key r" "ukey y = ukey r"
      by (auto simp: list_ex_iff)
    with a u have "y = x" using wf_store_ukey_inj[OF wf y(1) x(1)] by simp
    with y(2) k x(2) show False by simp
  qed
  moreover have "list_ex (\<lambda>y. key y = key r) xs"
    using x k by (auto simp: list_ex_iff)
  ultimately show ?thesis using k by (simp add: store_put_def)
qed

lemma replace_back:
  assumes wf: "wf_store key ukey xs" and get: "store_get key k xs = Some x" and k: "key r = k"
  shows "map (\<lambda>y. if key y = k then x else y) (map (\<lambda>y. if key y = k then r else y) xs) = xs"
proof -
  from store_get_SomeD[OF get] have x: "x \<in> set xs" "key x = k" by auto
  have "(if key (if key y = k then r else y) = k then x else (if key y = k then r else y)) = y"
    if "y \<in> set xs" for y
    using wf_store_key_inj[OF wf that x(1)] x(2) k by auto
  then show ?thesis by (simp add: map_idI)
qed

lemma wf_store_replace:
  assumes wf: "wf_store key ukey xs" and get: "store_get key k xs = Some x"
    and k: "key r = k" and u: "ukey r = ukey x"
  shows "wf_store key ukey (map (\<lambda>y. if key y = k then r else y) xs)"
proof -
  from store_get_SomeD[OF get] have x: "x \<in> set xs" "key x = k" by auto
  let ?f = "\<lambda>y. if key y = k then r else y"
  have same_u: "ukey (?f y) = ukey y" if "y \<in> set xs" for y
    using wf_store_key_inj[OF wf that x(1)] x(2) u by auto
  have keys: "map key (map ?f xs) = map key xs" using k by (induction xs) auto
  have "\<forall>y \<in> set ys. ukey (?f y) = ukey y \<Longrightarrow>
        map ukey (filter (\<lambda>x. ukey x \<noteq> None) (map ?f ys)) = map ukey (filter (\<lambda>x. ukey x \<noteq> None) ys)"
    for ys by (induction ys) auto
  with same_u have "map ukey (filter (\<lambda>x. ukey x \<noteq> None) (map ?f xs))
                   = map ukey (filter (\<lambda>x. ukey x \<noteq> None) xs)" by blast
  with keys wf show ?thesis unfolding wf_store_def by (simp del: map_map)
qed

lemma store_get_replace:
  assumes "store_get key k xs = Some x" and "key r = k"
  shows "store_get key k (map (\<lambda>y. if key y = k then r else y) xs) = Some r"
  using assms unfolding store_get_def by (induction xs) (auto split: if_splits)

lemma tabs_roundtrip:
  assumes wf: "wf_store tab_id groupId_position (tabs db)"
    and get: "store_get tab_id i (tabs db) = Some t"
    and active: "\<not> tab_isArchived t" "tab_archivedAt t = None"
  shows "\<exists>db1. archiveTab now i db = (Inr (), db1) \<and>
           store_get tab_id i (tabs db1) = Some (t\<lparr>tab_isArchived := True, tab_archivedAt := Some now\<rparr>) \<and>
           unarchiveTab i db1 = (Inr (), db)"
proof -
  let ?a = "t\<lparr>tab_isArchived := True, tab_archivedAt := Some now\<rparr>"
  let ?s1 = "map (\<lambda>y. if tab_id y = i then ?a else y) (tabs db)"
  from store_get_SomeD[OF get] have id: "tab_id t = i" by simp
  have ka: "tab_id ?a = i" "groupId_position ?a = groupId_position t"
    using id by (simp_all add: groupId_position_def)
  have put1: "store_put tab_id groupId_position ?a (tabs db) = Inr ?s1"
    by (rule store_put_in_place[OF wf get ka])
  have arch: "archiveTab now i db = (Inr (), db\<lparr>tabs := ?s1\<rparr>)"
    using get put1 by (simp add: archiveTab_def)
  have get1: "store_get tab_id i ?s1 = Some ?a"
    by (rule store_get_replace[OF get ka(1)])
  have wf1: "wf_store tab_id groupId_position ?s1"
    by (rule wf_store_replace[OF wf get ka])
  have undo: "?a\<lparr>tab_isArchived := False, tab_archivedAt := None\<rparr> = t"
    using active by simp
  have "store_put tab_id groupId_position t ?s1
          = Inr (map (\<lambda>y. if tab_id y = i then t else y) ?s1)"
    by (rule store_put_in_place[OF wf1 get1 id]) (simp add: ka)
  moreover have "map (\<lambda>y. if tab_id y = i then t else y) ?s1 = tabs db"
    by (rule replace_back[OF wf get ka(1)])
  ultimately have put2: "store_put tab_id groupId_position t ?s1 = Inr (tabs db)" by simp
  have "unarchiveTab i (db\<lparr>tabs := ?s1\<rparr>) = (Inr (), db)"
    using get1 put2 undo by (simp add: unarchiveTab_def)
  with arch get1 show ?thesis by simp
qed

lemma tabGroups_roundtrip:
  assumes wf: "wf_store tg_id workspaceId_position (tabGroups db)"
    and get: "store_get tg_id i (tabGroups db) = Some g"
    and active: "\<not> tg_isArchived g" "tg_archivedAt g = None"
  shows "\<exists>db1. archiveTabGroup now i db = (Inr (), db1) \<and>
           store_get tg_id i (tabGroups db1) = Some (g\<lparr>tg_isArchived := True, tg_archivedAt := Some now\<rparr>) \<and>
           unarchiveTabGroup i db1 = (Inr (), db)"
proof -
  let ?a = "g\<lparr>tg_isArchived := True, tg_archivedAt := Some now\<rparr>"
  let ?s1 = "map (\<lambda>y. if tg_id y = i then ?a else y) (tabGroups db)"
  from store_get_SomeD[OF get] have id: "tg_id g = i" by simp
  have ka: "tg_id ?a = i" "workspaceId_position ?a = workspaceId_position g"
    using id by (simp_all add: workspaceId_position_def)
  have put1: "store_put tg_id workspaceId_position ?a (tabGroups db) = Inr ?s1"
    by (rule store_put_in_place[OF wf get ka])
  have arch: "archiveTabGroup now i db = (Inr (), db\<lparr>tabGroups := ?s1\<rparr>)"
    using get put1 by (simp add: archiveTabGroup_def)
  have get1: "store_get tg_id i ?s1 = Some ?a"
    by (rule store_get_replace[OF get ka(1)])
  have wf1: "wf_store tg_id workspaceId_position ?s1"
    by (rule wf_store_replace[OF wf get ka])
  have undo: "?a\<lparr>tg_isArchived := False, tg_archivedAt := None\<rparr> = g"
    using active by simp
  have "store_put tg_id workspaceId_position g ?s1
          = Inr (map (\<lambda>y. if tg_id y = i then g else y) ?s1)"
    by (rule store_put_in_place[OF wf1 get1 id]) (simp add: ka)
  moreover have "map (\<lambda>y. if tg_id y = i then g else y) ?s1 = tabGroups db"
    by (rule replace_back[OF wf get ka(1)])
  ultimately have put2: "store_put tg_id workspaceId_position g ?s1 = Inr (tabGroups db)" by simp
  have "unarchiveTabGroup i (db\<lparr>tabGroups := ?s1\<rparr>) = (Inr (), db)"
    using get1 put2 undo by (simp add: unarchiveTabGroup_def)
  with arch get1 show ?thesis by simp
qed

text \<open>
  Claim C10. In a database that satisfies the engine's invariant, for a tab (and likewise a
  tab group) that is stored, not archived and without \<open>archivedAt\<close>: \<open>archiveTab\<close> succeeds
  and stores the record with \<open>isArchived\<close> true and \<open>archivedAt\<close> the current time, and
  \<open>unarchiveTab\<close> on the result succeeds and gives back the database as it was, so the
  record read under the id is the original one in every field.
\<close>

theorem archive_unarchive_roundtrip:
  assumes "wf_database db"
  shows "(store_get tab_id i (tabs db) = Some t \<and> \<not> tab_isArchived t \<and> tab_archivedAt t = None \<longrightarrow>
            (\<exists>db1. archiveTab now i db = (Inr (), db1) \<and>
               store_get tab_id i (tabs db1)
                 = Some (t\<lparr>tab_isArchived := True, tab_archivedAt := Some now\<rparr>) \<and>
               unarchiveTab i db1 = (Inr (), db) \<and>
               store_get tab_id i (tabs db) = Some t)) \<and>
         (store_get tg_id j (tabGroups db) = Some g \<and> \<not> tg_isArchived g \<and> tg_archivedAt g = None \<longrightarrow>
            (\<exists>db1. archiveTabGroup now j db = (Inr (), db1) \<and>
               store_get tg_id j (tabGroups db1)
                 = Some (g\<lparr>tg_isArchived := True, tg_archivedAt := Some now\<rparr>) \<and>
               unarchiveTabGroup j db1 = (Inr (), db) \<and>
               store_get tg_id j (tabGroups db) = Some g))"
  using assms tabs_roundtrip[of db i t now] tabGroups_roundtrip[of db j g now]
  unfolding wf_database_def by blast


theorem archive_unarchive_roundtrip_witness:
  "wf_database scenario_db \<and>
   (\<exists>db1. archiveTab (3 * day) ''t1'' scenario_db = (Inr (), db1) \<and>
      store_get tab_id ''t1'' (tabs db1)
        = Some ((scenario_tab ''t1'' ''g1'' 0)\<lparr>tab_isArchived := True,
                                                tab_archivedAt := Some (3 * day)\<rparr>) \<and>
      unarchiveTab ''t1'' db1 = (Inr (), scenario_db) \<and>
      store_get tab_id ''t1'' (tabs scenario_db) = Some (scenario_tab ''t1'' ''g1'' 0)) \<and>
   (\<exists>db1. archiveTabGroup (3 * day) ''g1'' scenario_db = (Inr (), db1) \<and>
      store_get tg_id ''g1'' (tabGroups db1)
        = Some ((scenario_group ''g1'' 0 False)\<lparr>tg_isArchived := True,
                                                 tg_archivedAt := Some (3 * day)\<rparr>) \<and>
      unarchiveTabGroup ''g1'' db1 = (Inr (), scenario_db) \<and>
      store_get tg_id ''g1'' (tabGroups scenario_db) = Some (scenario_group ''g1'' 0 False))"
proof -
  have wf: "wf_database scenario_db"
    by (simp add: wf_database_def wf_store_def scenario_defs no_unique_index_def
        workspaceId_position_def groupId_position_def)
  have t: "store_get tab_id ''t1'' (tabs scenario_db) = Some (scenario_tab ''t1'' ''g1'' 0)"
    "\<not> tab_isArchived (scenario_tab ''t1'' ''g1'' 0)"
    "tab_archivedAt (scenario_tab ''t1'' ''g1'' 0) = None"
    by (simp_all add: scenario_defs store_get_def)
  have g: "store_get tg_id ''g1'' (tabGroups scenario_db) = Some (scenario_group ''g1'' 0 False)"
    "\<not> tg_isArchived (scenario_group ''g1'' 0 False)"
    "tg_archivedAt (scenario_group ''g1'' 0 False) = None"
    by (simp_all add: scenario_defs store_get_def)
  note r = archive_unarchive_roundtrip[OF wf, of "''t1''" "scenario_tab ''t1'' ''g1'' 0" "3 * day"
      "''g1''" "scenario_group ''g1'' 0 False"]
  show ?thesis
    using wf r[THEN conjunct1] r[THEN conjunct2] t g by blast
qed

subsection \<open>Update: read, merge, write\<close>

lemma find_insort_key:
  "\<not> list_ex (\<lambda>x. key x = key r) xs \<Longrightarrow> find (\<lambda>x. key x = key r) (insort_key key r xs) = Some r"
  by (induction xs) auto

lemma find_replace:
  "list_ex (\<lambda>x. key x = key r) xs \<Longrightarrow>
   find (\<lambda>x. key x = key r) (map (\<lambda>x. if key x = key r then r else x) xs) = Some r"
  by (induction xs) auto

lemma store_get_put: "store_put key ukey r xs = Inr s \<Longrightarrow> store_get key (key r) s = Some r"
  unfolding store_put_def store_get_def
  by (auto split: if_splits simp: find_insort_key find_replace)

lemma store_put_no_unique_index:
  "\<exists>s. store_put key no_unique_index r xs = Inr s"
  by (simp add: store_put_def no_unique_index_def)

lemma store_put_unique_index:
  "ukey r \<noteq> None \<Longrightarrow>
   (list_ex (\<lambda>x. key x \<noteq> key r \<and> ukey x = ukey r) xs \<longrightarrow>
      store_put key ukey r xs = Inl ConstraintError) \<and>
   (\<not> list_ex (\<lambda>x. key x \<noteq> key r \<and> ukey x = ukey r) xs \<longrightarrow>
      (\<exists>s. store_put key ukey r xs = Inr s))"
  by (simp add: store_put_def)

lemma merge_Workspace_fields:
  "ws_id (merge_Workspace w uw)
     = (case pws_id uw of None \<Rightarrow> ws_id w | Some v \<Rightarrow> v) \<and>
   ws_name (merge_Workspace w uw)
     = (case pws_name uw of None \<Rightarrow> ws_name w | Some v \<Rightarrow> v) \<and>
   ws_isDefault (merge_Workspace w uw)
     = (case pws_isDefault uw of None \<Rightarrow> ws_isDefault w | Some v \<Rightarrow> v) \<and>
   ws_createdAt (merge_Workspace w uw)
     = (case pws_createdAt uw of None \<Rightarrow> ws_createdAt w | Some v \<Rightarrow> v) \<and>
   ws_lastAccessedAt (merge_Workspace w uw)
     = (case pws_lastAccessedAt uw of None \<Rightarrow> ws_lastAccessedAt w | Some v \<Rightarrow> v)"
  by (simp add: merge_Workspace_def spread_def)

lemma updateWorkspace_cases:
  "(store_get ws_id iw (workspaces db) = None \<longrightarrow>
      updateWorkspace iw uw db
        = (Inl (Error (''Workspace with ID '' @ quoted iw @ '' not found'')), db)) \<and>
   (store_get ws_id iw (workspaces db) = Some w \<longrightarrow>
      (\<exists>db'. updateWorkspace iw uw db = (Inr (), db') \<and>
           store_get ws_id (ws_id (merge_Workspace w uw)) (workspaces db') = Some (merge_Workspace w uw)))"
proof -
  obtain s where s: "store_put ws_id no_unique_index (merge_Workspace w uw) (workspaces db) = Inr s"
    using store_put_no_unique_index[of ws_id "merge_Workspace w uw" "workspaces db"] by blast
  show ?thesis
    using s store_get_put[OF s] by (simp add: updateWorkspace_def)
qed

lemma merge_TabGroup_fields:
  "tg_id (merge_TabGroup g ug)
     = (case ptg_id ug of None \<Rightarrow> tg_id g | Some v \<Rightarrow> v) \<and>
   tg_workspaceId (merge_TabGroup g ug)
     = (case ptg_workspaceId ug of None \<Rightarrow> tg_workspaceId g | Some v \<Rightarrow> v) \<and>
   tg_name (merge_TabGroup g ug)
     = (case ptg_name ug of None \<Rightarrow> tg_name g | Some v \<Rightarrow> v) \<and>
   tg_icon (merge_TabGroup g ug)
     = (case ptg_icon ug of None \<Rightarrow> tg_icon g | Some v \<Rightarrow> v) \<and>
   tg_position (merge_TabGroup g ug)
     = (case ptg_position ug of None \<Rightarrow> tg_position g | Some v \<Rightarrow> v) \<and>
   tg_isArchived (merge_TabGroup g ug)
     = (case ptg_isArchived ug of None \<Rightarrow> tg_isArchived g | Some v \<Rightarrow> v) \<and>
   tg_archivedAt (merge_TabGroup g ug)
     = (case ptg_archivedAt ug of None \<Rightarrow> tg_archivedAt g | Some v \<Rightarrow> v) \<and>
   tg_createdAt (merge_TabGroup g ug)
     = (case ptg_createdAt ug of None \<Rightarrow> tg_createdAt g | Some v \<Rightarrow> v)"
  by (simp add: merge_TabGroup_def spread_def)

lemma updateTabGroup_cases:
  "(store_get tg_id ig (tabGroups db) = None \<longrightarrow>
      updateTabGroup ig ug db
        = (Inl (Error (''Tab group with ID '' @ quoted ig @ '' not found'')), db)) \<and>
   (store_get tg_id ig (tabGroups db) = Some g \<longrightarrow>
      (\<not> list_ex (\<lambda>x. tg_id x \<noteq> tg_id (merge_TabGroup g ug) \<and>
                       workspaceId_position x = workspaceId_position (merge_TabGroup g ug)) (tabGroups db) \<longrightarrow>
         (\<exists>db'. updateTabGroup ig ug db = (Inr (), db') \<and>
           store_get tg_id (tg_id (merge_TabGroup g ug)) (tabGroups db') = Some (merge_TabGroup g ug))) \<and>
      (list_ex (\<lambda>x. tg_id x \<noteq> tg_id (merge_TabGroup g ug) \<and>
                       workspaceId_position x = workspaceId_position (merge_TabGroup g ug)) (tabGroups db) \<longrightarrow>
         updateTabGroup ig ug db
           = (Inl (ErrorFrom ''Failed to update tab group: '' ConstraintError), db)))"
proof -
  let ?m = "merge_TabGroup g ug"
  have u: "workspaceId_position ?m \<noteq> None" by (simp add: workspaceId_position_def)
  show ?thesis
    using store_put_unique_index[where ukey = workspaceId_position and r = ?m and key = tg_id
        and xs = "tabGroups db", OF u]
      store_get_put[of tg_id workspaceId_position ?m "tabGroups db"]
    by (auto simp: updateTabGroup_def)
qed

lemma merge_Tab_fields:
  "tab_id (merge_Tab t ut)
     = (case ptab_id ut of None \<Rightarrow> tab_id t | Some v \<Rightarrow> v) \<and>
   tab_groupId (merge_Tab t ut)
     = (case ptab_groupId ut of None \<Rightarrow> tab_groupId t | Some v \<Rightarrow> v) \<and>
   tab_url (merge_Tab t ut)
     = (case ptab_url ut of None \<Rightarrow> tab_url t | Some v \<Rightarrow> v) \<and>
   tab_title (merge_Tab t ut)
     = (case ptab_title ut of None \<Rightarrow> tab_title t | Some v \<Rightarrow> v) \<and>
   tab_favicon (merge_Tab t ut)
     = (case ptab_favicon ut of None \<Rightarrow> tab_favicon t | Some v \<Rightarrow> v) \<and>
   tab_position (merge_Tab t ut)
     = (case ptab_position ut of None \<Rightarrow> tab_position t | Some v \<Rightarrow> v) \<and>
   tab_isArchived (merge_Tab t ut)
     = (case ptab_isArchived ut of None \<Rightarrow> tab_isArchived t | Some v \<Rightarrow> v) \<and>
   tab_archivedAt (merge_Tab t ut)
     = (case ptab_archivedAt ut of None \<Rightarrow> tab_archivedAt t | Some v \<Rightarrow> v) \<and>
   tab_createdAt (merge_Tab t ut)
     = (case ptab_createdAt ut of None \<Rightarrow> tab_createdAt t | Some v \<Rightarrow> v)"
  by (simp add: merge_Tab_def spread_def)

lemma updateTab_cases:
  "(store_get tab_id it (tabs db) = None \<longrightarrow>
      updateTab it ut db
        = (Inl (Error (''Tab with ID '' @ quoted it @ '' not found'')), db)) \<and>
   (store_get tab_id it (tabs db) = Some t \<longrightarrow>
      (\<not> list_ex (\<lambda>x. tab_id x \<noteq> tab_id (merge_Tab t ut) \<and>
                       groupId_position x = groupId_position (merge_Tab t ut)) (tabs db) \<longrightarrow>
         (\<exists>db'. updateTab it ut db = (Inr (), db') \<and>
           store_get tab_id (tab_id (merge_Tab t ut)) (tabs db') = Some (merge_Tab t ut))) \<and>
      (list_ex (\<lambda>x. tab_id x \<noteq> tab_id (merge_Tab t ut) \<and>
                       groupId_position x = groupId_position (merge_Tab t ut)) (tabs db) \<longrightarrow>
         updateTab it ut db
           = (Inl (ErrorFrom ''Failed to update tab: '' ConstraintError), db)))"
proof -
  let ?m = "merge_Tab t ut"
  have u: "groupId_position ?m \<noteq> None" by (simp add: groupId_position_def)
  show ?thesis
    using store_put_unique_index[where ukey = groupId_position and r = ?m and key = tab_id
        and xs = "tabs db", OF u]
      store_get_put[of tab_id groupId_position ?m "tabs db"]
    by (auto simp: updateTab_def)
qed

lemma merge_DeletedItem_fields:
  "di_id (merge_DeletedItem d ud)
     = (case pdi_id ud of None \<Rightarrow> di_id d | Some v \<Rightarrow> v) \<and>
   di_type (merge_DeletedItem d ud)
     = (case pdi_type ud of None \<Rightarrow> di_type d | Some v \<Rightarrow> v) \<and>
   di_data (merge_DeletedItem d ud)
     = (case pdi_data ud of None \<Rightarrow> di_data d | Some v \<Rightarrow> v) \<and>
   di_deletedAt (merge_DeletedItem d ud)
     = (case pdi_deletedAt ud of None \<Rightarrow> di_deletedAt d | Some v \<Rightarrow> v) \<and>
   di_originalLocation (merge_DeletedItem d ud)
     = (case pdi_originalLocation ud of None \<Rightarrow> di_originalLocation d | Some v \<Rightarrow> v) \<and>
   di_parentId (merge_DeletedItem d ud)
     = (case pdi_parentId ud of None \<Rightarrow> di_parentId d | Some v \<Rightarrow> v)"
  by (simp add: merge_DeletedItem_def spread_def)

lemma updateDeletedItem_cases:
  "(store_get di_id idl (deletedItems db) = None \<longrightarrow>
      updateDeletedItem idl ud db
        = (Inl (Error (''Deleted item with ID '' @ quoted idl @ '' not found'')), db)) \<and>
   (store_get di_id idl (deletedItems db) = Some d \<longrightarrow>
      (\<exists>db'. updateDeletedItem idl ud db = (Inr (), db') \<and>
           store_get di_id (di_id (merge_DeletedItem d ud)) (deletedItems db') = Some (merge_DeletedItem d ud)))"
proof -
  obtain s where s: "store_put di_id no_unique_index (merge_DeletedItem d ud) (deletedItems db) = Inr s"
    using store_put_no_unique_index[of di_id "merge_DeletedItem d ud" "deletedItems db"] by blast
  show ?thesis
    using s store_get_put[OF s] by (simp add: updateDeletedItem_def)
qed


text \<open>
  Claim C7, as amended. In each of the four stores, \<open>update\<close> of an id the store does not
  hold rejects with the not-found message and leaves the database as it was. When the
  record exists, the record written is the merge: a field named in the update has the
  new value and any other field the stored one. The write is a \<open>put\<close>: for workspaces and
  deleted items it always succeeds; for tab groups and tabs it succeeds when no record
  under another id holds the merged record's (parent, position) pair, and then the
  record stored under the merged record's id is the merge; when such a record exists,
  \<open>update\<close> rejects with \<open>Failed to update ...\<close> around the engine's \<open>ConstraintError\<close> and
  the database is as it was.
\<close>

theorem update_merge_write:
  "((store_get ws_id iw (workspaces db) = None \<longrightarrow>
       updateWorkspace iw uw db
         = (Inl (Error (''Workspace with ID '' @ quoted iw @ '' not found'')), db)) \<and>
    (store_get ws_id iw (workspaces db) = Some w \<longrightarrow>
       (\<exists>db'. updateWorkspace iw uw db = (Inr (), db') \<and>
            store_get ws_id (ws_id (merge_Workspace w uw)) (workspaces db') = Some (merge_Workspace w uw)))) \<and>
   ((store_get tg_id ig (tabGroups db) = None \<longrightarrow>
       updateTabGroup ig ug db
         = (Inl (Error (''Tab group with ID '' @ quoted ig @ '' not found'')), db)) \<and>
    (store_get tg_id ig (tabGroups db) = Some g \<longrightarrow>
       (\<not> list_ex (\<lambda>x. tg_id x \<noteq> tg_id (merge_TabGroup g ug) \<and>
                        workspaceId_position x = workspaceId_position (merge_TabGroup g ug)) (tabGroups db) \<longrightarrow>
          (\<exists>db'. updateTabGroup ig ug db = (Inr (), db') \<and>
            store_get tg_id (tg_id (merge_TabGroup g ug)) (tabGroups db') = Some (merge_TabGroup g ug))) \<and>
       (list_ex (\<lambda>x. tg_id x \<noteq> tg_id (merge_TabGroup g ug) \<and>
                        workspaceId_position x = workspaceId_position (merge_TabGroup g ug)) (tabGroups db) \<longrightarrow>
          updateTabGroup ig ug db
            = (Inl (ErrorFrom ''Failed to update tab group: '' ConstraintError), db)))) \<and>
   ((store_get tab_id it (tabs db) = None \<longrightarrow>
       updateTab it ut db
         = (Inl (Error (''Tab with ID '' @ quoted it @ '' not found'')), db)) \<and>
    (store_get tab_id it (tabs db) = Some t \<longrightarrow>
       (\<not> list_ex (\<lambda>x. tab_id x \<noteq> tab_id (merge_Tab t ut) \<and>
                        groupId_position x = groupId_position (merge_Tab t ut)) (tabs db) \<longrightarrow>
          (\<exists>db'. updateTab it ut db = (Inr (), db') \<and>
            store_get tab_id (tab_id (merge_Tab t ut)) (tabs db') = Some (merge_Tab t ut))) \<and>
       (list_ex (\<lambda>x. tab_id x \<noteq> tab_id (merge_Tab t ut) \<and>
                        groupId_position x = groupId_position (merge_Tab t ut)) (tabs db) \<longrightarrow>
          updateTab it ut db
            = (Inl (ErrorFrom ''Failed to update tab: '' ConstraintError), db)))) \<and>
   ((store_get di_id idl (deletedItems db) = None \<longrightarrow>
       updateDeletedItem idl ud db
         = (Inl (Error (''Deleted item with ID '' @ quoted idl @ '' not found'')), db)) \<and>
    (store_get di_id idl (deletedItems db) = Some d \<longrightarrow>
       (\<exists>db'. updateDeletedItem idl ud db = (Inr (), db') \<and>
            store_get di_id (di_id (merge_DeletedItem d ud)) (deletedItems db') = Some (merge_DeletedItem d ud)))) \<and>
   (ws_id (merge_Workspace w uw)
      = (case pws_id uw of None \<Rightarrow> ws_id w | Some v \<Rightarrow> v) \<and>
    ws_name (merge_Workspace w uw)
      = (case pws_name uw of None \<Rightarrow> ws_name w | Some v \<Rightarrow> v) \<and>
    ws_isDefault (merge_Workspace w uw)
      = (case pws_isDefault uw of None \<Rightarrow> ws_isDefault w | Some v \<Rightarrow> v) \<and>
    ws_createdAt (merge_Workspace w uw)
      = (case pws_createdAt uw of None \<Rightarrow> ws_createdAt w | Some v \<Rightarrow> v) \<and>
    ws_lastAccessedAt (merge_Workspace w uw)
      = (case pws_lastAccessedAt uw of None \<Rightarrow> ws_lastAccessedAt w | Some v \<Rightarrow> v)) \<and>
   (tg_id (merge_TabGroup g ug)
      = (case ptg_id ug of None \<Rightarrow> tg_id g | Some v \<Rightarrow> v) \<and>
    tg_workspaceId (merge_TabGroup g ug)
      = (case ptg_workspaceId ug of None \<Rightarrow> tg_workspaceId g | Some v \<Rightarrow> v) \<and>
    tg_name (merge_TabGroup g ug)
      = (case ptg_name ug of None \<Rightarrow> tg_name g | Some v \<Rightarrow> v) \<and>
    tg_icon (merge_TabGroup g ug)
      = (case ptg_icon ug of None \<Rightarrow> tg_icon g | Some v \<Rightarrow> v) \<and>
    tg_position (merge_TabGroup g ug)
      = (case ptg_position ug of None \<Rightarrow> tg_position g | Some v \<Rightarrow> v) \<and>
    tg_isArchived (merge_TabGroup g ug)
      = (case ptg_isArchived ug of None \<Rightarrow> tg_isArchived g | Some v \<Rightarrow> v) \<and>
    tg_archivedAt (merge_TabGroup g ug)
      = (case ptg_archivedAt ug of None \<Rightarrow> tg_archivedAt g | Some v \<Rightarrow> v) \<and>
    tg_createdAt (merge_TabGroup g ug)
      = (case ptg_createdAt ug of None \<Rightarrow> tg_createdAt g | Some v \<Rightarrow> v)) \<and>
   (tab_id (merge_Tab t ut)
      = (case ptab_id ut of None \<Rightarrow> tab_id t | Some v \<Rightarrow> v) \<and>
    tab_groupId (merge_Tab t ut)
      = (case ptab_groupId ut of None \<Rightarrow> tab_groupId t | Some v \<Rightarrow> v) \<and>
    tab_url (merge_Tab t ut)
      = (case ptab_url ut of None \<Rightarrow> tab_url t | Some v \<Rightarrow> v) \<and>
    tab_title (merge_Tab t ut)
      = (case ptab_title ut of None \<Rightarrow> tab_title t | Some v \<Rightarrow> v) \<and>
    tab_favicon (merge_Tab t ut)
      = (case ptab_favicon ut of None \<Rightarrow> tab_favicon t | Some v \<Rightarrow> v) \<and>
    tab_position (merge_Tab t ut)
      = (case ptab_position ut of None \<Rightarrow> tab_position t | Some v \<Rightarrow> v) \<and>
    tab_isArchived (merge_Tab t ut)
      = (case ptab_isArchived ut of None \<Rightarrow> tab_isArchived t | Some v \<Rightarrow> v) \<and>
    tab_archivedAt (merge_Tab t ut)
      = (case ptab_archivedAt ut of None \<Rightarrow> tab_archivedAt t | Some v \<Rightarrow> v) \<and>
    tab_createdAt (merge_Tab t ut)
      = (case ptab_createdAt ut of None \<Rightarrow> tab_createdAt t | Some v \<Rightarrow> v)) \<and>
   (di_id (merge_DeletedItem d ud)
      = (case pdi_id ud of None \<Rightarrow> di_id d | Some v \<Rightarrow> v) \<and>
    di_type (merge_DeletedItem d ud)
      = (case pdi_type ud of None \<Rightarrow> di_type d | Some v \<Rightarrow> v) \<and>
    di_data (merge_DeletedItem d ud)
      = (case pdi_data ud of None \<Rightarrow> di_data d | Some v \<Rightarrow> v) \<and>
    di_deletedAt (merge_DeletedItem d ud)
      = (case pdi_deletedAt ud of None \<Rightarrow> di_deletedAt d | Some v \<Rightarrow> v) \<and>
    di_originalLocation (merge_DeletedItem d ud)
      = (case pdi_originalLocation ud of None \<Rightarrow> di_originalLocation d | Some v \<Rightarrow> v) \<and>
    di_parentId (merge_DeletedItem d ud)
      = (case pdi_parentId ud of None \<Rightarrow> di_parentId d | Some v \<Rightarrow> v))"
  using updateWorkspace_cases[of iw db uw w] merge_Workspace_fields[of w uw]
    updateTabGroup_cases[of ig db ug g] merge_TabGroup_fields[of g ug]
    updateTab_cases[of it db ut t] merge_Tab_fields[of t ut]
    updateDeletedItem_cases[of idl db ud d] merge_DeletedItem_fields[of d ud]
  by (elim conjE) (intro conjI; assumption)



theorem update_merge_write_witness:
  "(\<exists>db'. updateWorkspace ''w1'' (no_updates_Workspace\<lparr>pws_name := Some ''Office''\<rparr>) scenario_db
            = (Inr (), db') \<and>
      map_option ws_name (store_get ws_id ''w1'' (workspaces db')) = Some ''Office'' \<and>
      map_option ws_isDefault (store_get ws_id ''w1'' (workspaces db')) = Some True) \<and>
   (\<exists>db'. updateTabGroup ''g2'' (no_updates_TabGroup\<lparr>ptg_position := Some 5\<rparr>) scenario_db
            = (Inr (), db') \<and>
      map_option tg_position (store_get tg_id ''g2'' (tabGroups db')) = Some 5 \<and>
      map_option tg_isArchived (store_get tg_id ''g2'' (tabGroups db')) = Some True) \<and>
   (\<exists>db'. updateTab ''t1'' (no_updates_Tab\<lparr>ptab_title := Some ''Docs''\<rparr>) scenario_db
            = (Inr (), db') \<and>
      map_option tab_title (store_get tab_id ''t1'' (tabs db')) = Some ''Docs'' \<and>
      map_option tab_groupId (store_get tab_id ''t1'' (tabs db')) = Some ''g1'') \<and>
   (\<exists>db'. updateDeletedItem ''w2''
             (no_updates_DeletedItem\<lparr>pdi_originalLocation := Some ''Elsewhere''\<rparr>) scenario_db
            = (Inr (), db') \<and>
      map_option di_originalLocation (store_get di_id ''w2'' (deletedItems db'))
        = Some ''Elsewhere'' \<and>
      map_option di_deletedAt (store_get di_id ''w2'' (deletedItems db')) = Some (2 * day)) \<and>
   updateWorkspace ''zz'' no_updates_Workspace scenario_db
     = (Inl (Error (''Workspace with ID '' @ quoted ''zz'' @ '' not found'')), scenario_db) \<and>
   updateTabGroup ''zz'' no_updates_TabGroup scenario_db
     = (Inl (Error (''Tab group with ID '' @ quoted ''zz'' @ '' not found'')), scenario_db) \<and>
   updateTab ''zz'' no_updates_Tab scenario_db
     = (Inl (Error (''Tab with ID '' @ quoted ''zz'' @ '' not found'')), scenario_db) \<and>
   updateDeletedItem ''zz'' no_updates_DeletedItem scenario_db
     = (Inl (Error (''Deleted item with ID '' @ quoted ''zz'' @ '' not found'')), scenario_db) \<and>
   updateTabGroup ''g2'' (no_updates_TabGroup\<lparr>ptg_position := Some 0\<rparr>) scenario_db
     = (Inl (ErrorFrom ''Failed to update tab group: '' ConstraintError), scenario_db) \<and>
   updateTab ''t2'' (no_updates_Tab\<lparr>ptab_position := Some 0\<rparr>) scenario_db
     = (Inl (ErrorFrom ''Failed to update tab: '' ConstraintError), scenario_db)"
proof -
  let ?w = "scenario_w1" and ?uw = "no_updates_Workspace\<lparr>pws_name := Some ''Office''\<rparr>"
  let ?g = "scenario_group ''g2'' 1 True" and ?ug = "no_updates_TabGroup\<lparr>ptg_position := Some 5\<rparr>"
  let ?t = "scenario_tab ''t1'' ''g1'' 0" and ?ut = "no_updates_Tab\<lparr>ptab_title := Some ''Docs''\<rparr>"
  let ?d = "tombstone TypeWorkspace (WorkspaceData (scenario_w1\<lparr>ws_id := ''w2''\<rparr>)) (2 * day) None"
  let ?ud = "no_updates_DeletedItem\<lparr>pdi_originalLocation := Some ''Elsewhere''\<rparr>"
  let ?ugc = "no_updates_TabGroup\<lparr>ptg_position := Some 0\<rparr>"
  let ?tc = "scenario_tab ''t2'' ''g1'' 1" and ?utc = "no_updates_Tab\<lparr>ptab_position := Some 0\<rparr>"
  have found: "store_get ws_id ''w1'' (workspaces scenario_db) = Some ?w"
    "store_get tg_id ''g2'' (tabGroups scenario_db) = Some ?g"
    "store_get tab_id ''t1'' (tabs scenario_db) = Some ?t"
    "store_get tab_id ''t2'' (tabs scenario_db) = Some ?tc"
    "store_get di_id ''w2'' (deletedItems scenario_db) = Some ?d"
    by (simp_all add: scenario_defs store_get_def)
  have absent: "store_get ws_id ''zz'' (workspaces scenario_db) = None"
    "store_get tg_id ''zz'' (tabGroups scenario_db) = None"
    "store_get tab_id ''zz'' (tabs scenario_db) = None"
    "store_get di_id ''zz'' (deletedItems scenario_db) = None"
    by (simp_all add: scenario_defs store_get_def)
  have ids: "ws_id (merge_Workspace ?w ?uw) = ''w1''" "tg_id (merge_TabGroup ?g ?ug) = ''g2''"
    "tab_id (merge_Tab ?t ?ut) = ''t1''" "di_id (merge_DeletedItem ?d ?ud) = ''w2''"
    by (simp_all add: scenario_defs no_updates_Workspace_def no_updates_TabGroup_def no_updates_Tab_def
        no_updates_DeletedItem_def merge_Workspace_def merge_TabGroup_def
        merge_Tab_def merge_DeletedItem_def spread_def)
  have free: "\<not> list_ex (\<lambda>x. tg_id x \<noteq> tg_id (merge_TabGroup ?g ?ug) \<and>
                 workspaceId_position x = workspaceId_position (merge_TabGroup ?g ?ug))
               (tabGroups scenario_db)"
    "\<not> list_ex (\<lambda>x. tab_id x \<noteq> tab_id (merge_Tab ?t ?ut) \<and>
                 groupId_position x = groupId_position (merge_Tab ?t ?ut)) (tabs scenario_db)"
    by (simp_all add: scenario_defs no_updates_Workspace_def no_updates_TabGroup_def no_updates_Tab_def
        no_updates_DeletedItem_def merge_TabGroup_def merge_Tab_def spread_def
        workspaceId_position_def groupId_position_def)
  have taken: "list_ex (\<lambda>x. tg_id x \<noteq> tg_id (merge_TabGroup ?g ?ugc) \<and>
                 workspaceId_position x = workspaceId_position (merge_TabGroup ?g ?ugc))
               (tabGroups scenario_db)"
    "list_ex (\<lambda>x. tab_id x \<noteq> tab_id (merge_Tab ?tc ?utc) \<and>
                 groupId_position x = groupId_position (merge_Tab ?tc ?utc)) (tabs scenario_db)"
    by (simp_all add: scenario_defs no_updates_Workspace_def no_updates_TabGroup_def no_updates_Tab_def
        no_updates_DeletedItem_def merge_TabGroup_def merge_Tab_def spread_def
        workspaceId_position_def groupId_position_def)
  have vals: "ws_name (merge_Workspace ?w ?uw) = ''Office''" "ws_isDefault (merge_Workspace ?w ?uw)"
    "tg_position (merge_TabGroup ?g ?ug) = 5" "tg_isArchived (merge_TabGroup ?g ?ug)"
    "tab_title (merge_Tab ?t ?ut) = ''Docs''" "tab_groupId (merge_Tab ?t ?ut) = ''g1''"
    "di_originalLocation (merge_DeletedItem ?d ?ud) = ''Elsewhere''"
    "di_deletedAt (merge_DeletedItem ?d ?ud) = 2 * day"
    by (simp_all add: scenario_defs no_updates_Workspace_def no_updates_TabGroup_def no_updates_Tab_def
        no_updates_DeletedItem_def merge_Workspace_def merge_TabGroup_def
        merge_Tab_def merge_DeletedItem_def spread_def)
  note a = update_merge_write[of "''w1''" scenario_db ?uw ?w "''g2''" ?ug ?g "''t1''" ?ut ?t
      "''w2''" ?ud ?d]
  note b = update_merge_write[of "''zz''" scenario_db no_updates_Workspace ?w "''zz''"
      no_updates_TabGroup ?g "''zz''" no_updates_Tab ?t "''zz''" no_updates_DeletedItem ?d]
  note c = update_merge_write[of "''w1''" scenario_db ?uw ?w "''g2''" ?ugc ?g "''t2''" ?utc ?tc
      "''w2''" ?ud ?d]
  note aw = a[THEN conjunct1]
    and ag = a[THEN conjunct2, THEN conjunct1]
    and at = a[THEN conjunct2, THEN conjunct2, THEN conjunct1]
    and ad = a[THEN conjunct2, THEN conjunct2, THEN conjunct2, THEN conjunct1]
  note bw = b[THEN conjunct1]
    and bg = b[THEN conjunct2, THEN conjunct1]
    and bt = b[THEN conjunct2, THEN conjunct2, THEN conjunct1]
    and bd = b[THEN conjunct2, THEN conjunct2, THEN conjunct2, THEN conjunct1]
  note cg = c[THEN conjunct2, THEN conjunct1]
    and ct = c[THEN conjunct2, THEN conjunct2, THEN conjunct1]
  have A1: "\<exists>db'. updateWorkspace ''w1'' ?uw scenario_db = (Inr (), db') \<and>
             store_get ws_id ''w1'' (workspaces db') = Some (merge_Workspace ?w ?uw)"
    using aw[THEN conjunct2] found(1) ids(1) by simp
  have A2: "\<exists>db'. updateTabGroup ''g2'' ?ug scenario_db = (Inr (), db') \<and>
             store_get tg_id ''g2'' (tabGroups db') = Some (merge_TabGroup ?g ?ug)"
    using ag[THEN conjunct2] found(2) free(1) ids(2) by simp
  have A3: "\<exists>db'. updateTab ''t1'' ?ut scenario_db = (Inr (), db') \<and>
             store_get tab_id ''t1'' (tabs db') = Some (merge_Tab ?t ?ut)"
    using at[THEN conjunct2] found(3) free(2) ids(3) by simp
  have A4: "\<exists>db'. updateDeletedItem ''w2'' ?ud scenario_db = (Inr (), db') \<and>
             store_get di_id ''w2'' (deletedItems db') = Some (merge_DeletedItem ?d ?ud)"
    using ad[THEN conjunct2] found(5) ids(4) by simp
  have B: "updateWorkspace ''zz'' no_updates_Workspace scenario_db
             = (Inl (Error (''Workspace with ID '' @ quoted ''zz'' @ '' not found'')), scenario_db)"
    "updateTabGroup ''zz'' no_updates_TabGroup scenario_db
             = (Inl (Error (''Tab group with ID '' @ quoted ''zz'' @ '' not found'')), scenario_db)"
    "updateTab ''zz'' no_updates_Tab scenario_db
             = (Inl (Error (''Tab with ID '' @ quoted ''zz'' @ '' not found'')), scenario_db)"
    "updateDeletedItem ''zz'' no_updates_DeletedItem scenario_db
             = (Inl (Error (''Deleted item with ID '' @ quoted ''zz'' @ '' not found'')), scenario_db)"
    using bw[THEN conjunct1] bg[THEN conjunct1] bt[THEN conjunct1] bd[THEN conjunct1] absent
    by blast+
  have C: "updateTabGroup ''g2'' ?ugc scenario_db
             = (Inl (ErrorFrom ''Failed to update tab group: '' ConstraintError), scenario_db)"
    "updateTab ''t2'' ?utc scenario_db
             = (Inl (ErrorFrom ''Failed to update tab: '' ConstraintError), scenario_db)"
    using cg[THEN conjunct2] ct[THEN conjunct2] found(2,4) taken by blast+
  have A: "\<exists>db'. updateWorkspace ''w1'' ?uw scenario_db = (Inr (), db') \<and>
      map_option ws_name (store_get ws_id ''w1'' (workspaces db')) = Some ''Office'' \<and>
      map_option ws_isDefault (store_get ws_id ''w1'' (workspaces db')) = Some True"
    "\<exists>db'. updateTabGroup ''g2'' ?ug scenario_db = (Inr (), db') \<and>
      map_option tg_position (store_get tg_id ''g2'' (tabGroups db')) = Some 5 \<and>
      map_option tg_isArchived (store_get tg_id ''g2'' (tabGroups db')) = Some True"
    "\<exists>db'. updateTab ''t1'' ?ut scenario_db = (Inr (), db') \<and>
      map_option tab_title (store_get tab_id ''t1'' (tabs db')) = Some ''Docs'' \<and>
      map_option tab_groupId (store_get tab_id ''t1'' (tabs db')) = Some ''g1''"
    "\<exists>db'. updateDeletedItem ''w2'' ?ud scenario_db = (Inr (), db') \<and>
      map_option di_originalLocation (store_get di_id ''w2'' (deletedItems db'))
        = Some ''Elsewhere'' \<and>
      map_option di_deletedAt (store_get di_id ''w2'' (deletedItems db')) = Some (2 * day)"
    using A1 A2 A3 A4 vals by auto
  show ?thesis
    using A B C by (intro conjI)
qed


text \<open>
  Claim C7 as stated fails: group \<open>g2\<close> exists at position 1 and the update names position
  0, which \<open>g1\<close> holds in the same workspace; the \<open>put\<close> is refused, \<open>updateTabGroup\<close>
  rejects, and the position of \<open>g2\<close> is still 1.
\<close>

theorem update_position_collision_counterexample:
  "store_get tg_id ''g2'' (tabGroups scenario_db) = Some (scenario_group ''g2'' 1 True) \<and>
   ptg_position (no_updates_TabGroup\<lparr>ptg_position := Some 0\<rparr>) = Some 0 \<and>
   updateTabGroup ''g2'' (no_updates_TabGroup\<lparr>ptg_position := Some 0\<rparr>) scenario_db
     = (Inl (ErrorFrom ''Failed to update tab group: '' ConstraintError), scenario_db) \<and>
   tg_position (scenario_group ''g2'' 1 True) = 1"
  by (simp add: scenario_defs engine_defs updateTabGroup_def no_updates_TabGroup_def
      merge_TabGroup_def spread_def)


subsection \<open>Restore after a hard delete\<close>

lemma store_get_add: "store_add key ukey r xs = Inr s \<Longrightarrow> store_get key (key r) s = Some r"
  unfolding store_add_def store_get_def
  by (auto split: if_splits simp: find_insort_key)

lemma store_get_delete: "store_get key k (store_delete key k xs) = None"
  unfolding store_get_def store_delete_def by (induction xs) auto

text \<open>
  Steps 4 and 5 by themselves are right: through an active transaction, a tab whose id and
  (group, position) pair are free is added as the snapshot has it, the tombstone is
  deleted and the promise resolved with \<open>true\<close>.
\<close>

lemma restore_write_active:
  assumes "di_type d = TypeTab" and "di_data d = TabData t"
    and "store_add tab_id groupId_position t (tabs db) = Inr s"
  shows "\<exists>db'. restore_write TxActive i d db = (Inr True, db') \<and>
           store_get tab_id (tab_id t) (tabs db') = Some t \<and>
           store_get di_id i (deletedItems db') = None"
  using assms store_get_add[OF assms(3)]
  by (simp add: restore_write_def txn_request_def restore_add_def store_get_delete)

text \<open>
  Whatever the tombstone and the time, \<open>restoreDeletedItem\<close> rejects and writes nothing:
  every path that passes the retention check reaches the \<open>add\<close> after the transaction has
  been committed.
\<close>

lemma restore_never_resolves:
  "snd (restoreDeletedItem now i db) = db \<and> (\<exists>e. fst (restoreDeletedItem now i db) = Inl e)"
  by (auto simp: restoreDeletedItem_def Let_def restore_write_def txn_request_def
      return_to_event_loop_def split: option.splits sum.splits)

text \<open>
  Claim C2 says that an entity that is hard-deleted and restored within the retention
  window, all checks passing, is back in its store as it was, and its tombstone gone. At
  this input the code does otherwise. Tab \<open>t3\<close> is hard-deleted on day 14: its snapshot goes
  to the trash with \<open>createDeletedItem\<close> and \<open>deleteTab\<close> removes it. On day 15 the
  tombstone is within retention, no tab has its id and its group \<open>g1\<close> exists, yet
  \<open>restoreDeletedItem\<close> rejects with \<open>TransactionInactiveError\<close>; the tab is still missing
  from \<open>tabs\<close> and the tombstone is still in the trash.
\<close>

theorem restore_after_hard_delete:
  "(let tomb = tombstone TypeTab (TabData (scenario_tab ''t3'' ''g1'' 2)) (14 * day) (Some ''g1'');
        db1 = snd (deleteTab ''t3'' (snd (createDeletedItem tomb scenario_db)))
    in store_get tab_id ''t3'' (tabs scenario_db) = Some (scenario_tab ''t3'' ''g1'' 2) \<and>
       store_get tab_id ''t3'' (tabs db1) = None \<and>
       store_get di_id ''t3'' (deletedItems db1) = Some tomb \<and>
       isWithinRetentionPeriod (15 * day) (di_deletedAt tomb) \<and>
       \<not> checkIdConflict db1 (di_id tomb) (di_type tomb) \<and>
       validate_parent db1 tomb = Inr () \<and>
       restoreDeletedItem (15 * day) ''t3'' db1 = (Inl (DOMException TransactionInactiveError), db1))"
  by (simp add: Let_def scenario_defs engine_defs createDeletedItem_def deleteTab_def
      isWithinRetentionPeriod_def retentionPeriodMs_def checkIdConflict_def validate_parent_def
      validateTabGroupExists_def restoreDeletedItem_def restore_write_def txn_request_def
      return_to_event_loop_def)

subsection \<open>Creating a tab group on an occupied position\<close>

text \<open>
  \<open>createTabGroup\<close> rejects a record whose id or whose (workspace, position) pair is taken,
  leaves the database as it was, and gives the same message in both cases.
\<close>

lemma createTabGroup_rejects:
  assumes "list_ex (\<lambda>x. tg_id x = tg_id r) (tabGroups db) \<or>
           list_ex (\<lambda>x. workspaceId_position x = workspaceId_position r) (tabGroups db)"
  shows "createTabGroup r db
           = (Inl (Error (''Tab group with ID '' @ quoted (tg_id r) @ '' already exists'')), db)"
  using assms by (auto simp: createTabGroup_def store_add_def workspaceId_position_def)

text \<open>
  Claim C3 says that creating a second tab group on an occupied (workspace, position) pair,
  or under an occupied id, fails with a duplicate-constraint error, leaves the store
  unchanged, and that the message tells which of the two rules was broken. The first two
  hold; the message does not. Creating \<open>g3\<close> at position 0 of \<open>w1\<close>, which \<open>g1\<close> holds while
  no group has the id \<open>g3\<close>, is rejected with \<open>Tab group with ID 'g3' already exists\<close>,
  the very message the same record gets from a store where the id \<open>g3\<close> is taken and the
  position is free.
\<close>

theorem createTabGroup_same_message:
  "store_get tg_id ''g3'' (tabGroups scenario_db) = None \<and>
   workspaceId_position (scenario_group ''g3'' 0 False)
     = workspaceId_position (scenario_group ''g1'' 0 False) \<and>
   createTabGroup (scenario_group ''g3'' 0 False) scenario_db
     = (Inl (Error (''Tab group with ID '' @ quoted ''g3'' @ '' already exists'')), scenario_db) \<and>
   createTabGroup (scenario_group ''g3'' 0 False)
       (empty_db\<lparr>tabGroups := [scenario_group ''g3'' 9 False]\<rparr>)
     = (Inl (Error (''Tab group with ID '' @ quoted ''g3'' @ '' already exists'')),
        empty_db\<lparr>tabGroups := [scenario_group ''g3'' 9 False]\<rparr>)"
  by (simp add: scenario_defs engine_defs createTabGroup_def)

subsection \<open>The tab count of a workspace\<close>

text \<open>
  \<open>getWorkSpaceCount\<close> resolves with 0 for a workspace with no active group and rejects for
  any other: \<open>false\<close> is no key, so \<open>IDBKeyRange.only(false)\<close> raises \<open>DataError\<close>.
\<close>

lemma getWorkSpaceCount_cases:
  "getWorkSpaceCount workspaceId db =
     (if filter (\<lambda>group. \<not> tg_isArchived group)
           (index_getAll workspaceId_keypath (KeyString workspaceId) (tabGroups db)) = []
      then Inr 0
      else Inl (ErrorFrom ''Failed to process group data: '' DataError))"
  by (simp add: getWorkSpaceCount_def Let_def IDBKeyRange_only_def)

text \<open>
  Claim C5 says that the tab count of a workspace is the number of tabs that are not
  archived and belong to a group of the workspace that is not archived, so 3 for the
  workspace with an archived and an active group of three tabs each, while \<open>getAllTabs\<close>
  returns all 6. In that scenario \<open>getAllTabs\<close> does return the 6 tabs, the number the
  claim describes is 3, and \<open>getTabCount\<close>, which filters \<open>isArchived\<close> after the index
  lookup, counts 3 in the active group; \<open>getWorkSpaceCount\<close> rejects.
\<close>

theorem getWorkSpaceCount_scenario:
  "getWorkSpaceCount ''w1'' scenario_db
     = Inl (ErrorFrom ''Failed to process group data: '' DataError) \<and>
   getTabCount ''g1'' scenario_db = Inr 3 \<and>
   getAllTabs scenario_db = Inr (tabs scenario_db) \<and> length (tabs scenario_db) = 6 \<and>
   length (filter (\<lambda>tab. \<not> tab_isArchived tab \<and>
                     tab_groupId tab \<in> set (map tg_id
                       (filter (\<lambda>g. tg_workspaceId g = ''w1'' \<and> \<not> tg_isArchived g)
                          (tabGroups scenario_db))))
             (tabs scenario_db)) = 3"
  by (simp add: scenario_defs engine_defs getWorkSpaceCount_def getTabCount_def getAllTabs_def
      index_getAll_def IDBKeyRange_only_def workspaceId_keypath_def groupId_keypath_def)

subsection \<open>The expiry sweep\<close>

text \<open>
  When no request fails and the ids of the trash are distinct, the sweep removes exactly
  the tombstones deleted more than 14 days before \<open>now\<close>, keeps the others, and resolves
  with the number removed (0 when none is expired).
\<close>

lemma sweep_requests_no_failure:
  "sweep_requests (\<lambda>i. False) es False n store
     = (n + length es, False, filter (\<lambda>x. di_id x \<notin> set (map di_id es)) store)"
proof (induction es arbitrary: n store)
  case Nil
  then show ?case by simp
next
  case (Cons e es)
  have "filter (\<lambda>x. di_id x \<notin> set (map di_id es)) (store_delete di_id (di_id e) store)
          = filter (\<lambda>x. di_id x \<notin> set (map di_id (e # es))) store"
    by (auto simp: store_delete_def intro: filter_cong)
  with Cons show ?case by simp
qed

lemma cleanup_without_failures:
  assumes "distinct (map di_id (deletedItems db))"
  shows "cleanupExpiredDeletedItems now (\<lambda>i. False) db
           = (Inr (length (filter (\<lambda>item. di_deletedAt item < now - 14 * day) (deletedItems db))),
              db\<lparr>deletedItems :=
                   filter (\<lambda>item. \<not> di_deletedAt item < now - 14 * day) (deletedItems db)\<rparr>)"
proof -
  let ?exp = "\<lambda>item. di_deletedAt item < now - 14 * day"
  let ?es = "filter ?exp (deletedItems db)"
  have inj: "inj_on di_id (set (deletedItems db))"
    using assms by (simp add: distinct_map)
  have "di_id x \<notin> set (map di_id ?es) \<longleftrightarrow> \<not> ?exp x" if "x \<in> set (deletedItems db)" for x
    using that inj by (auto dest: inj_onD)
  then have keep: "filter (\<lambda>x. di_id x \<notin> set (map di_id ?es)) (deletedItems db)
                    = filter (\<lambda>x. \<not> ?exp x) (deletedItems db)"
    by (auto intro: filter_cong)
  have cut: "now - 14 * 24 * 60 * 60 * 1000 = now - 14 * day" by (simp add: day_def)
  show ?thesis
  proof (cases "?es = []")
    case True
    then have "filter (\<lambda>x. \<not> ?exp x) (deletedItems db) = deletedItems db"
      by (simp add: filter_empty_conv)
    with True show ?thesis
      by (simp add: cleanupExpiredDeletedItems_def Let_def store_getAll_def day_def)
  next
    case False
    then show ?thesis
      using sweep_requests_no_failure[of ?es 0 "deletedItems db"] keep
      by (simp add: cleanupExpiredDeletedItems_def Let_def store_getAll_def day_def)
  qed
qed

text \<open>
  Claim C6 says in addition that the sweep tolerates the failure of single \<open>delete\<close>
  requests, skipping the failed item without aborting the batch, and that it returns the
  number of items actually deleted. At day 40 all five tombstones of the scenario are
  expired; when the engine fails the request for \<open>t1\<close>, the third, the sweep resolves with
  2, the requests that succeeded before, while the transaction has aborted and the trash
  is as it was: nothing was deleted.
\<close>

theorem cleanup_with_failed_request:
  "length (filter (\<lambda>item. di_deletedAt item < 40 * day - 14 * day) (deletedItems scenario_db)) = 5 \<and>
   cleanupExpiredDeletedItems (40 * day) (\<lambda>i. i = ''t1'') scenario_db = (Inr 2, scenario_db)"
  by (simp add: scenario_defs engine_defs cleanupExpiredDeletedItems_def Let_def)


subsection \<open>The invariant of the stores is kept\<close>

text \<open>
  \<open>add\<close>, \<open>put\<close> and \<open>delete\<close> keep a store well formed, so every function of the module
  takes a well-formed database to a well-formed one, starting from the empty database.
\<close>

lemma wf_store_insort:
  assumes wf: "wf_store key ukey xs"
    and fresh: "\<not> list_ex (\<lambda>x. key x = key r) xs"
    and free: "\<not> (ukey r \<noteq> None \<and> list_ex (\<lambda>x. ukey x = ukey r) xs)"
  shows "wf_store key ukey (insort_key key r xs)"
proof -
  let ?P = "\<lambda>x. ukey x \<noteq> None"
  from wf have srt: "sorted (map key xs)" and dk: "distinct (map key xs)"
    and du: "distinct (map ukey (filter ?P xs))"
    by (simp_all add: wf_store_def)
  from fresh have notin: "key r \<notin> key ` set xs" by (auto simp: list_ex_iff)
  have s': "sorted (map key (insort_key key r xs))"
    using srt by (simp add: sorted_insort_key)
  have d': "distinct (map key (insort_key key r xs))"
    using dk notin by (auto simp: distinct_map distinct_insort set_insort_key)
  have u': "distinct (map ukey (filter ?P (insort_key key r xs)))"
  proof (cases "?P r")
    case False
    then show ?thesis using du by (simp add: filter_insort_triv)
  next
    case True
    with free have nu: "ukey r \<notin> ukey ` set xs" by (auto simp: list_ex_iff)
    have "filter ?P (insort_key key r xs) = insort_key key r (filter ?P xs)"
      using srt True by (simp add: filter_insort)
    moreover have "distinct (map ukey (insort_key key r (filter ?P xs)))"
      using du nu notin by (auto simp: distinct_map distinct_insort set_insort_key)
    ultimately show ?thesis by simp
  qed
  from s' d' u' show ?thesis by (simp add: wf_store_def)
qed

lemma wf_store_add:
  assumes "wf_store key ukey xs" and "store_add key ukey r xs = Inr s"
  shows "wf_store key ukey s"
  using assms by (auto simp: store_add_def split: if_splits intro: wf_store_insort)

lemma distinct_map_filter_both:
  "distinct (map f (filter P xs)) \<Longrightarrow> distinct (map f (filter P (filter Q xs)))"
  by (induction xs) auto

lemma wf_store_delete:
  assumes "wf_store key ukey xs"
  shows "wf_store key ukey (store_delete key k xs)"
  using assms unfolding wf_store_def store_delete_def
  by (auto simp: sorted_filter distinct_map_filter intro: distinct_map_filter_both
      simp del: filter_filter)

lemma wf_store_overwrite:
  assumes wf: "wf_store key ukey xs"
    and free: "\<not> (ukey r \<noteq> None \<and> list_ex (\<lambda>x. key x \<noteq> key r \<and> ukey x = ukey r) xs)"
  shows "wf_store key ukey (map (\<lambda>x. if key x = key r then r else x) xs)"
proof -
  let ?P = "\<lambda>x. ukey x \<noteq> None" and ?f = "\<lambda>x. if key x = key r then r else x"
  from wf have srt: "sorted (map key xs)" and dk: "distinct (map key xs)"
    and du: "distinct (map ukey (filter ?P xs))"
    by (simp_all add: wf_store_def)
  have keys: "map key (map ?f xs) = map key xs" by (induction xs) auto
  have ds: "distinct (map ?f xs)"
    using dk keys by (metis distinct_map)
  have mem: "y = r \<or> (y \<in> set xs \<and> key y \<noteq> key r)" if "y \<in> set (map ?f xs)" for y
    using that by (auto split: if_splits)
  have inj: "inj_on ukey (set (filter ?P (map ?f xs)))"
  proof (rule inj_onI)
    fix a b
    assume a: "a \<in> set (filter ?P (map ?f xs))" and b: "b \<in> set (filter ?P (map ?f xs))"
      and eq: "ukey a = ukey b"
    from a b have pa: "?P a" and pb: "?P b" and ma: "a \<in> set (map ?f xs)"
      and mb: "b \<in> set (map ?f xs)" by auto
    from du have old: "inj_on ukey (set (filter ?P xs))" by (simp add: distinct_map)
    consider "a = r" "b = r" | "a = r" "b \<in> set xs" "key b \<noteq> key r"
      | "b = r" "a \<in> set xs" "key a \<noteq> key r"
      | "a \<in> set xs" "b \<in> set xs"
      using mem[OF ma] mem[OF mb] by blast
    then show "a = b"
    proof cases
      case 1 then show ?thesis by simp
    next
      case 2 with free eq pa show ?thesis by (auto simp: list_ex_iff)
    next
      case 3 with free eq pb show ?thesis by (auto simp: list_ex_iff)
    next
      case 4 with old pa pb eq show ?thesis by (auto dest: inj_onD)
    qed
  qed
  have "distinct (map ukey (filter ?P (map ?f xs)))"
    using ds inj by (simp add: distinct_map del: map_map)
  with srt dk keys show ?thesis by (simp add: wf_store_def del: map_map)
qed

lemma wf_store_put:
  assumes "wf_store key ukey xs" and "store_put key ukey r xs = Inr s"
  shows "wf_store key ukey s"
proof -
  from assms(2) have free: "\<not> (ukey r \<noteq> None \<and> list_ex (\<lambda>x. key x \<noteq> key r \<and> ukey x = ukey r) xs)"
    by (auto simp: store_put_def split: if_splits)
  show ?thesis
  proof (cases "list_ex (\<lambda>x. key x = key r) xs")
    case True
    with assms(2) free have "s = map (\<lambda>x. if key x = key r then r else x) xs"
      by (auto simp: store_put_def split: if_splits)
    with wf_store_overwrite[OF assms(1) free] show ?thesis by simp
  next
    case False
    with assms(2) free have s: "s = insort_key key r xs"
      by (auto simp: store_put_def split: if_splits)
    have "\<not> (ukey r \<noteq> None \<and> list_ex (\<lambda>x. ukey x = ukey r) xs)"
      using free False by (auto simp: list_ex_iff)
    with wf_store_insort[OF assms(1) False] s show ?thesis by simp
  qed
qed


lemma wf_sweep_requests:
  "wf_store di_id no_unique_index store \<Longrightarrow>
   wf_store di_id no_unique_index (snd (snd (sweep_requests fails es aborted n store)))"
  by (induction es arbitrary: aborted n store) (auto intro: wf_store_delete)

lemma wf_database_empty: "wf_database empty_db"
  by (simp add: wf_database_def wf_store_def empty_db_def)

lemma wf_database_create:
  assumes "wf_database db"
  shows "wf_database (snd (createWorkspace w db))"
    and "wf_database (snd (createTabGroup g db))"
    and "wf_database (snd (createTab t db))"
    and "wf_database (snd (createDeletedItem d db))"
  using assms
  by (auto simp: wf_database_def createWorkspace_def createTabGroup_def createTab_def
      createDeletedItem_def split: sum.splits intro: wf_store_add)

lemma wf_database_update:
  assumes "wf_database db"
  shows "wf_database (snd (updateWorkspace i uw db))"
    and "wf_database (snd (updateTabGroup i ug db))"
    and "wf_database (snd (updateTab i ut db))"
    and "wf_database (snd (updateDeletedItem i ud db))"
  using assms
  by (auto simp: wf_database_def updateWorkspace_def updateTabGroup_def updateTab_def
      updateDeletedItem_def Let_def split: sum.splits option.splits intro: wf_store_put)

lemma wf_database_archive:
  assumes "wf_database db"
  shows "wf_database (snd (archiveTabGroup now i db))"
    and "wf_database (snd (unarchiveTabGroup i db))"
    and "wf_database (snd (archiveTab now i db))"
    and "wf_database (snd (unarchiveTab i db))"
  using assms
  by (auto simp: wf_database_def archiveTabGroup_def unarchiveTabGroup_def archiveTab_def
      unarchiveTab_def Let_def split: sum.splits option.splits intro: wf_store_put)

lemma wf_database_delete:
  assumes "wf_database db"
  shows "wf_database (snd (deleteWorkspace i db))"
    and "wf_database (snd (deleteTabGroup i db))"
    and "wf_database (snd (deleteTab i db))"
    and "wf_database (snd (deleteDeletedItem i db))"
    and "wf_database (snd (permanentlyDeleteItem i db))"
  using assms
  by (auto simp: wf_database_def deleteWorkspace_def deleteTabGroup_def deleteTab_def
      deleteDeletedItem_def permanentlyDeleteItem_def intro: wf_store_delete)

lemma wf_database_trash:
  assumes "wf_database db"
  shows "wf_database (snd (restoreDeletedItem now i db))"
    and "wf_database (snd (cleanupExpiredDeletedItems now fails db))"
proof -
  show "wf_database (snd (restoreDeletedItem now i db))"
    using assms restore_never_resolves[of now i db] by simp
  have "wf_store di_id no_unique_index
          (snd (snd (sweep_requests fails es False 0 (deletedItems db))))" for es
    using assms by (auto simp: wf_database_def intro: wf_sweep_requests)
  then show "wf_database (snd (cleanupExpiredDeletedItems now fails db))"
    using assms
    by (auto simp: cleanupExpiredDeletedItems_def Let_def wf_database_def split: prod.splits)
      (metis snd_conv)+
qed

end
